theory Spec2Isabelle
  imports Complex_Main
begin

section \<open>Python values, dictionaries and exceptions\<close>

text \<open>
  One universe of Python values serves for DataFrame cells, column labels, the violation
  and report dictionaries, and the JSON returned by the external services.
  \<open>PNone\<close> stands for every missing value of pandas (None, NaN, NaT); floats are
  modelled as exact rationals (no rounding, no infinities); a timestamp is its integer
  nanosecond value.  A dictionary is an association list in insertion order.
\<close>

datatype pyval =
    PNone
  | PBool bool
  | PInt int
  | PNum rat
  | PStr string
  | PTs int
  | PList "pyval list"
  | PDict "(string \<times> pyval) list"

type_synonym pydict = "(string \<times> pyval) list"

datatype exn =
    ValueError string
  | KeyError string
  | TypeError string
  | AttributeError string
  | OverflowError string

text \<open>\<open>str(e)\<close>: a KeyError prints the repr of the missing key.\<close>

definition sq :: string where
  "sq = [CHR 0x27]"

fun exn_str :: "exn \<Rightarrow> string" where
  "exn_str (ValueError m) = m"
| "exn_str (KeyError k) = sq @ k @ sq"
| "exn_str (TypeError m) = m"
| "exn_str (AttributeError m) = m"
| "exn_str (OverflowError m) = m"

text \<open>\<open>d[k]\<close>, \<open>d.get(k, default)\<close>, \<open>k in d\<close>, \<open>d[k] = v\<close>, \<open>d.pop(k)\<close>
  and \<open>d.update(e)\<close> for a dictionary \<open>e\<close>.\<close>

definition dict_item :: "pydict \<Rightarrow> string \<Rightarrow> exn + pyval" where
  "dict_item d k = (case map_of d k of None \<Rightarrow> Inl (KeyError k) | Some v \<Rightarrow> Inr v)"

definition dict_get :: "pydict \<Rightarrow> string \<Rightarrow> pyval \<Rightarrow> pyval" where
  "dict_get d k dflt = (case map_of d k of None \<Rightarrow> dflt | Some v \<Rightarrow> v)"

definition dict_has :: "pydict \<Rightarrow> string \<Rightarrow> bool" where
  "dict_has d k = (map_of d k \<noteq> None)"

fun dict_set :: "pydict \<Rightarrow> string \<Rightarrow> pyval \<Rightarrow> pydict" where
  "dict_set [] k v = [(k, v)]"
| "dict_set ((k', v') # d) k v =
     (if k' = k then (k, v) # d else (k', v') # dict_set d k v)"

definition dict_pop :: "pydict \<Rightarrow> string \<Rightarrow> pydict" where
  "dict_pop d k = filter (\<lambda>kv. fst kv \<noteq> k) d"

definition dict_update :: "pydict \<Rightarrow> pydict \<Rightarrow> pydict" where
  "dict_update d e = fold (\<lambda>kv acc. dict_set acc (fst kv) (snd kv)) e d"

text \<open>What \<open>float\<close> can return for a string: a finite number, an infinity or NaN.\<close>

datatype pyfloat = Finite rat | Infinity | NotANumber

text \<open>The library routines the repository calls on values it does not control are
  parameters of the model: \<open>str\<close> on floats, timestamps and missing values, the numeric
  reading of a string by \<open>pd.to_numeric\<close> and by \<open>float\<close>, the rounding of a number to
  the nearest float64 (\<open>f64\<close>, the identity on numbers that are float64 values), and
  \<open>json.loads\<close> (\<open>None\<close> is a JSONDecodeError).\<close>

record pylib =
  str_other :: "pyval \<Rightarrow> string"
  to_numeric_str :: "string \<Rightarrow> rat option"
  float_of_str :: "string \<Rightarrow> pyfloat option"
  f64 :: "rat \<Rightarrow> rat"
  json_loads :: "string \<Rightarrow> pyval option"

definition digit_char :: "nat \<Rightarrow> char" where
  "digit_char n = ''0123456789'' ! (n mod 10)"

function str_of_nat :: "nat \<Rightarrow> string" where
  "str_of_nat n =
     (if n < 10 then [digit_char n] else str_of_nat (n div 10) @ [digit_char n])"
  by pat_completeness auto
termination
  by (relation "measure id") auto

declare str_of_nat.simps [simp del]

definition str_of_int :: "int \<Rightarrow> string" where
  "str_of_int i = (if i < 0 then CHR ''-'' # str_of_nat (nat (- i)) else str_of_nat (nat i))"

definition py_str :: "pylib \<Rightarrow> pyval \<Rightarrow> string" where
  "py_str L v =
     (case v of
        PStr s \<Rightarrow> s
      | PInt i \<Rightarrow> str_of_int i
      | PBool b \<Rightarrow> (if b then ''True'' else ''False'')
      | _ \<Rightarrow> str_other L v)"

text \<open>Python's \<open>==\<close> on scalars, which pandas uses for \<open>unique\<close>, \<open>duplicated\<close> and
  label lookup: numbers compare by value across int, float and bool.\<close>

definition num_val :: "pyval \<Rightarrow> rat option" where
  "num_val v =
     (case v of
        PInt i \<Rightarrow> Some (of_int i)
      | PNum r \<Rightarrow> Some r
      | PBool b \<Rightarrow> Some (if b then 1 else 0)
      | _ \<Rightarrow> None)"

definition py_eq :: "pyval \<Rightarrow> pyval \<Rightarrow> bool" where
  "py_eq a b =
     (case (num_val a, num_val b) of
        (Some x, Some y) \<Rightarrow> x = y
      | (None, None) \<Rightarrow> a = b
      | _ \<Rightarrow> False)"

section \<open>DataFrames\<close>

text \<open>A Series is its dtype name (what \<open>str(s.dtype)\<close> prints) and its values; a DataFrame
  is its row index and its labelled columns, in order.  Labels may repeat after a rename.\<close>

record series =
  dtype :: string
  vals :: "pyval list"

record dataframe =
  index :: "nat list"
  columns :: "(pyval \<times> series) list"

definition df_ok :: "dataframe \<Rightarrow> bool" where
  "df_ok df = list_all (\<lambda>ls. length (vals (snd ls)) = length (index df)) (columns df)"

definition isnull :: "pyval \<Rightarrow> bool" where
  "isnull v = (v = PNone)"

text \<open>Boolean-mask selection \<open>xs[mask]\<close>.\<close>

definition sel :: "bool list \<Rightarrow> 'a list \<Rightarrow> 'a list" where
  "sel keep xs = map fst (filter snd (zip xs keep))"

definition select_rows :: "bool list \<Rightarrow> dataframe \<Rightarrow> dataframe" where
  "select_rows keep df =
     \<lparr> index = sel keep (index df),
       columns = map (\<lambda>ls. (fst ls, (snd ls)\<lparr>vals := sel keep (vals (snd ls))\<rparr>)) (columns df) \<rparr>"

text \<open>\<open>df.dropna(how='all')\<close>: a row stays when some column holds a value in it.\<close>

definition row_has_value :: "dataframe \<Rightarrow> nat \<Rightarrow> bool" where
  "row_has_value df j = list_ex (\<lambda>ls. \<not> isnull (vals (snd ls) ! j)) (columns df)"

definition dropna_all :: "dataframe \<Rightarrow> dataframe" where
  "dropna_all df = select_rows (map (row_has_value df) [0..<length (index df)]) df"

definition df_empty :: "dataframe \<Rightarrow> bool" where
  "df_empty df = (index df = [] \<or> columns df = [])"

text \<open>\<open>s.unique()\<close>: distinct values in order of first occurrence.\<close>

fun unique :: "pyval list \<Rightarrow> pyval list \<Rightarrow> pyval list" where
  "unique seen [] = []"
| "unique seen (v # vs) =
     (if list_ex (py_eq v) seen then unique seen vs else v # unique (v # seen) vs)"

definition dropna :: "pyval list \<Rightarrow> pyval list" where
  "dropna vs = filter (\<lambda>v. \<not> isnull v) vs"

text \<open>\<open>df[label]\<close>: a Series when the label names one column, a DataFrame when it names
  several, a KeyError when it names none.\<close>

datatype getitem = NoColumn | OneSeries series | SubFrame "series list"

definition df_getitem :: "dataframe \<Rightarrow> pyval \<Rightarrow> getitem" where
  "df_getitem df l =
     (case map snd (filter (\<lambda>ls. py_eq (fst ls) l) (columns df)) of
        [] \<Rightarrow> NoColumn
      | [s] \<Rightarrow> OneSeries s
      | ss \<Rightarrow> SubFrame ss)"

definition has_column :: "dataframe \<Rightarrow> pyval \<Rightarrow> bool" where
  "has_column df l = list_ex (\<lambda>ls. py_eq (fst ls) l) (columns df)"

section \<open>tools.extract_schema_from_df\<close>

definition opt_str :: "string option \<Rightarrow> pyval" where
  "opt_str s = (case s of None \<Rightarrow> PNone | Some t \<Rightarrow> PStr t)"

definition sample_value :: "pylib \<Rightarrow> pyval \<Rightarrow> pyval" where
  "sample_value L s = (case s of PTs t \<Rightarrow> PStr (py_str L (PTs t)) | _ \<Rightarrow> s)"

definition column_entry :: "pylib \<Rightarrow> series \<Rightarrow> pyval" where
  "column_entry L s =
     PDict [(''inferred_type'', PStr (dtype s)),
            (''sample_values'', PList (take 5 (map (sample_value L) (unique [] (dropna (vals s)))))),
            (''null_count'', PInt (int (length (filter isnull (vals s)))))]"

text \<open>The loop over \<open>df.columns\<close>.  On a repeated label \<open>df[col]\<close> is a DataFrame, which has
  no \<open>unique\<close>: the AttributeError leaves the loop.\<close>

fun column_details_loop :: "pylib \<Rightarrow> dataframe \<Rightarrow> pyval list \<Rightarrow> pydict \<Rightarrow> exn + pydict" where
  "column_details_loop L df [] acc = Inr acc"
| "column_details_loop L df (col # cols) acc =
     (case df_getitem df col of
        OneSeries s \<Rightarrow> column_details_loop L df cols (dict_set acc (py_str L col) (column_entry L s))
      | SubFrame ss \<Rightarrow> Inl (AttributeError (sq @ ''DataFrame'' @ sq @ '' object has no attribute '' @ sq @ ''unique'' @ sq))
      | NoColumn \<Rightarrow> Inl (KeyError (py_str L col)))"

text \<open>The function mutates its argument (\<open>inplace=True\<close>): the model returns the schema
  together with the caller's DataFrame as the call leaves it.\<close>

definition extract_schema_from_df ::
  "pylib \<Rightarrow> dataframe \<Rightarrow> string \<Rightarrow> string option \<Rightarrow> pydict \<times> dataframe" where
  "extract_schema_from_df L df0 file_name sheet_name =
     (let df = dropna_all df0 in
      if df_empty df then
        ([(''file_name'', PStr file_name), (''sheet_name'', opt_str sheet_name),
          (''total_rows'', PInt 0), (''columns'', PDict [])], df)
      else
        (case column_details_loop L df (map fst (columns df)) [] of
           Inr column_details \<Rightarrow>
             ([(''file_name'', PStr file_name), (''sheet_name'', opt_str sheet_name),
               (''total_rows'', PInt (int (length (index df)))),
               (''total_columns'', PInt (int (length (columns df)))),
               (''columns'', PDict column_details)], df)
         | Inl e \<Rightarrow>
             ([(''file_name'', PStr file_name), (''sheet_name'', opt_str sheet_name),
               (''total_rows'', PInt 0), (''columns'', PDict []),
               (''error'', PStr (exn_str e))], df)))"

section \<open>tools.validate_data_types\<close>

text \<open>The target table's schema as \<open>databricks_tools.get_db_schema\<close> builds it: one entry
  per column, in the table's order.\<close>

record col_details =
  col_type :: string
  nullable :: bool
  primary_key :: bool

type_synonym db_schema = "(string \<times> col_details) list"

text \<open>The warnings and notes the two checkers log.\<close>

datatype log_event =
    DuplicateColumnTypeSkip string
  | UnknownDbType string string
  | DuplicateColumnQualitySkip string
  | CheckConstraintSkipped string string
  | SampleCollectionError string string

definition upper_char :: "char \<Rightarrow> char" where
  "upper_char c =
     (let n = (of_char c :: nat) in if 97 \<le> n \<and> n \<le> 122 then char_of (n - 32) else c)"

definition lower_char :: "char \<Rightarrow> char" where
  "lower_char c =
     (let n = (of_char c :: nat) in if 65 \<le> n \<and> n \<le> 90 then char_of (n + 32) else c)"

definition upper :: "string \<Rightarrow> string" where
  "upper s = map upper_char s"

definition pandas_to_sql_map :: "(string \<times> string list) list" where
  "pandas_to_sql_map =
     [(''int64'', [''INTEGER'', ''INT'']),
      (''float64'', [''REAL'', ''FLOAT'', ''NUMERIC'', ''DOUBLE'']),
      (''object'', [''TEXT'', ''VARCHAR'', ''CHAR'', ''DATE'', ''DATETIME'', ''TIMESTAMP'', ''STRING'']),
      (''datetime64[ns]'', [''DATE'', ''DATETIME'', ''TIMESTAMP'']),
      (''bool'', [''BOOLEAN'', ''BOOL''])]"

fun smap_set :: "(string \<times> string) list \<Rightarrow> string \<Rightarrow> string \<Rightarrow> (string \<times> string) list" where
  "smap_set [] k v = [(k, v)]"
| "smap_set ((k', v') # d) k v =
     (if k' = k then (k, v) # d else (k', v') # smap_set d k v)"

text \<open>The inversion loop: a later pandas type replaces an earlier one unless it is
  \<open>object\<close>.\<close>

definition invert_step :: "string \<Rightarrow> string \<Rightarrow> (string \<times> string) list \<Rightarrow> (string \<times> string) list" where
  "invert_step pd_type sql_type m =
     (if map_of m sql_type = None \<or> pd_type \<noteq> ''object''
      then smap_set m (upper sql_type) pd_type else m)"

definition sql_to_pandas_map :: "(string \<times> string) list" where
  "sql_to_pandas_map =
     fold (\<lambda>entry m. fold (invert_step (fst entry)) (snd entry) m) pandas_to_sql_map []"

definition db_type_base :: "col_details \<Rightarrow> string" where
  "db_type_base d = upper (takeWhile (\<lambda>c. c \<noteq> CHR ''('') (col_type d))"

text \<open>\<open>pd.to_numeric(val, errors='raise')\<close> on one value (an empty string becomes NaN
  without an error), \<open>float(val)\<close> (an integer too large for a float64 overflows), and
  \<open>int\<close> of a float (truncation towards zero; an infinity overflows, NaN is a
  ValueError).\<close>

definition to_numeric_raise :: "pylib \<Rightarrow> pyval \<Rightarrow> exn + unit" where
  "to_numeric_raise L v =
     (case v of
        PStr s \<Rightarrow>
          (if s = [] then Inr ()
           else (case to_numeric_str L s of
                   None \<Rightarrow> Inl (ValueError ''Unable to parse string'')
                 | Some r \<Rightarrow> Inr ()))
      | PTs t \<Rightarrow> Inl (TypeError ''Invalid object type'')
      | PList xs \<Rightarrow> Inl (TypeError ''Invalid object type'')
      | PDict kv \<Rightarrow> Inl (TypeError ''Invalid object type'')
      | _ \<Rightarrow> Inr ())"

definition py_float :: "pylib \<Rightarrow> pyval \<Rightarrow> exn + pyfloat" where
  "py_float L v =
     (case v of
        PStr s \<Rightarrow>
          (case float_of_str L s of
             None \<Rightarrow> Inl (ValueError ''could not convert string to float'')
           | Some x \<Rightarrow> Inr x)
      | PInt i \<Rightarrow>
          (if 2 ^ 1024 - 2 ^ 970 \<le> \<bar>i\<bar>
           then Inl (OverflowError ''int too large to convert to float'')
           else Inr (Finite (f64 L (of_int i))))
      | PNum r \<Rightarrow> Inr (Finite r)
      | PBool b \<Rightarrow> Inr (Finite (if b then 1 else 0))
      | _ \<Rightarrow> Inl (TypeError ''float() argument must be a string or a real number''))"

definition py_int :: "pyfloat \<Rightarrow> exn + int" where
  "py_int x =
     (case x of
        Finite r \<Rightarrow> Inr (if 0 \<le> r then \<lfloor>r\<rfloor> else \<lceil>r\<rceil>)
      | Infinity \<Rightarrow> Inl (OverflowError ''cannot convert float infinity to integer'')
      | NotANumber \<Rightarrow> Inl (ValueError ''cannot convert float NaN to integer''))"

text \<open>What one pass of a sampling loop does with its value: append \<open>str(val)\<close>, go on,
  or leave the loop with an exception that \<open>except (ValueError, TypeError)\<close> does not
  catch.\<close>

datatype verdict = Append | Skip | Abort exn

definition handled :: "exn \<Rightarrow> verdict" where
  "handled e =
     (case e of ValueError m \<Rightarrow> Append | TypeError m \<Rightarrow> Append | _ \<Rightarrow> Abort e)"

text \<open>The body of the \<open>int64\<close>/\<open>object\<close> loop and of the \<open>float64\<close>/\<open>object\<close> loop.\<close>

definition fails_integer :: "pylib \<Rightarrow> pyval \<Rightarrow> verdict" where
  "fails_integer L v =
     (case to_numeric_raise L v of
        Inl e \<Rightarrow> handled e
      | Inr u \<Rightarrow>
          (case py_float L v of
             Inl e \<Rightarrow> handled e
           | Inr x \<Rightarrow>
               (case py_int x of
                  Inl e \<Rightarrow> handled e
                | Inr n \<Rightarrow> (if x \<noteq> Finite (of_int n) then Append else Skip))))"

definition fails_numeric :: "pylib \<Rightarrow> pyval \<Rightarrow> verdict" where
  "fails_numeric L v = (case to_numeric_raise L v of Inl e \<Rightarrow> handled e | Inr u \<Rightarrow> Skip)"

text \<open>Both sampling loops: they stop at 5 samples, or at an exception that escapes to
  the outer \<open>except\<close>, which keeps the samples gathered so far and logs a warning.\<close>

fun sample_loop ::
  "pylib \<Rightarrow> (pyval \<Rightarrow> verdict) \<Rightarrow> pyval list \<Rightarrow> string list \<Rightarrow> string list \<times> exn option" where
  "sample_loop L test [] acc = (acc, None)"
| "sample_loop L test (v # vs) acc =
     (case test v of
        Abort e \<Rightarrow> (acc, Some e)
      | Append \<Rightarrow>
          (if 5 \<le> length (acc @ [py_str L v]) then (acc @ [py_str L v], None)
           else sample_loop L test vs (acc @ [py_str L v]))
      | Skip \<Rightarrow> (if 5 \<le> length acc then (acc, None) else sample_loop L test vs acc))"

definition collect_samples ::
  "pylib \<Rightarrow> string \<Rightarrow> string \<Rightarrow> series \<Rightarrow> string list \<times> exn option" where
  "collect_samples L expected file_dtype s =
     (if expected = ''int64'' \<and> file_dtype = ''object''
        then sample_loop L (fails_integer L) (unique [] (dropna (vals s))) []
      else if expected = ''float64'' \<and> file_dtype = ''object''
        then sample_loop L (fails_numeric L) (unique [] (dropna (vals s))) []
      else if file_dtype = ''object''
        then (map (py_str L) (take 5 (unique [] (dropna (vals s)))), None)
      else ([], None))"

definition is_mismatch :: "string \<Rightarrow> string \<Rightarrow> string \<Rightarrow> bool" where
  "is_mismatch expected base file_dtype =
     (file_dtype \<noteq> expected \<and>
      \<not> (base \<in> set [''DATE'', ''DATETIME'', ''TIMESTAMP''] \<and> file_dtype = ''object''))"

text \<open>One iteration of the loop over \<open>db_schema.items()\<close>: the violations appended and the
  events logged.\<close>

definition type_check_column ::
  "pylib \<Rightarrow> dataframe \<Rightarrow> string \<times> col_details \<Rightarrow> pydict list \<times> log_event list" where
  "type_check_column L df item =
     (let db_col_name = fst item; d = snd item in
      if \<not> has_column df (PStr db_col_name) then ([], [])
      else
        (case df_getitem df (PStr db_col_name) of
           SubFrame ss \<Rightarrow> ([], [DuplicateColumnTypeSkip db_col_name])
         | NoColumn \<Rightarrow> ([], [])
         | OneSeries s \<Rightarrow>
             (let file_dtype = dtype s; base = db_type_base d in
              case map_of sql_to_pandas_map base of
                None \<Rightarrow> ([], [UnknownDbType base db_col_name])
              | Some expected \<Rightarrow>
                  (if expected \<noteq> [] \<and> is_mismatch expected base file_dtype
                   then
                     (let samples = collect_samples L expected file_dtype s in
                      ([[(''column'', PStr db_col_name),
                         (''expected_db_type'', PStr base),
                         (''found_file_type'', PStr file_dtype),
                         (''sample_invalid_values'', PList (map PStr (take 5 (fst samples))))]],
                       (case snd samples of
                          None \<Rightarrow> []
                        | Some e \<Rightarrow> [SampleCollectionError db_col_name (exn_str e)])))
                   else ([], [])))))"

definition validate_data_types ::
  "pylib \<Rightarrow> dataframe \<Rightarrow> db_schema \<Rightarrow> pydict list \<times> log_event list" where
  "validate_data_types L df schema =
     (let rs = map (type_check_column L df) schema
      in (concat (map fst rs), concat (map snd rs)))"

section \<open>tools.run_data_quality_checks\<close>

record check_constraint =
  cname :: "string option"
  sqltext :: string

text \<open>\<open>a in b\<close> and \<open>b.startswith(a)\<close> on strings.\<close>

fun starts_with :: "string \<Rightarrow> string \<Rightarrow> bool" where
  "starts_with [] s = True"
| "starts_with (a # as) [] = False"
| "starts_with (a # as) (c # cs) = (a = c \<and> starts_with as cs)"

fun contains_str :: "string \<Rightarrow> string \<Rightarrow> bool" where
  "contains_str a [] = (a = [])"
| "contains_str a (c # cs) = (starts_with a (c # cs) \<or> contains_str a cs)"

subsection \<open>Not-null check\<close>

definition is_db_string_type :: "col_details \<Rightarrow> bool" where
  "is_db_string_type d =
     list_ex (\<lambda>t. contains_str t (upper (col_type d))) [''CHAR'', ''TEXT'', ''STRING'']"

definition empty_string_count :: "series \<Rightarrow> nat" where
  "empty_string_count s =
     (if dtype s = ''object'' then length (filter (\<lambda>v. v = PStr []) (vals s)) else 0)"

definition null_count :: "col_details \<Rightarrow> series \<Rightarrow> nat" where
  "null_count d s =
     (let n = length (filter isnull (vals s))
      in if \<not> is_db_string_type d \<and> 0 < empty_string_count s
         then n + empty_string_count s else n)"

definition null_rows :: "dataframe \<Rightarrow> series \<Rightarrow> nat list" where
  "null_rows df s =
     take 5 (sel (map (\<lambda>v. isnull v \<or> (dtype s = ''object'' \<and> v = PStr [])) (vals s)) (index df))"

definition not_null_check :: "dataframe \<Rightarrow> string \<Rightarrow> col_details \<Rightarrow> series \<Rightarrow> pydict list" where
  "not_null_check df db_col_name d s =
     (if nullable d then []
      else if 0 < null_count d s then
        [[(''column'', PStr db_col_name),
          (''check'', PStr ''not_null_violation''),
          (''count'', PInt (int (null_count d s))),
          (''affected_rows_sample_indices'', PList (map (\<lambda>i. PInt (int i)) (null_rows df s))),
          (''severity'', PStr ''high''),
          (''details'', PStr (''Column is non-nullable but contains '' @ str_of_nat (null_count d s)
             @ '' nulls (or empty strings treated as nulls for non-string columns).''))]]
      else [])"

subsection \<open>Primary-key uniqueness\<close>

text \<open>The key values left after dropping nulls and, in an \<open>object\<close> column, empty strings.\<close>

definition pk_keys :: "series \<Rightarrow> pyval list" where
  "pk_keys s =
     (let non_null = dropna (vals s)
      in if dtype s = ''object'' then filter (\<lambda>v. v \<noteq> PStr []) non_null else non_null)"

text \<open>\<open>duplicated(keep=False)\<close>: every row whose key occurs more than once.\<close>

definition duplicated :: "pyval list \<Rightarrow> pyval list" where
  "duplicated ks = filter (\<lambda>v. 1 < length (filter (py_eq v) ks)) ks"

definition pk_check :: "pylib \<Rightarrow> string \<Rightarrow> col_details \<Rightarrow> series \<Rightarrow> pydict list" where
  "pk_check L db_col_name d s =
     (if \<not> primary_key d then []
      else
        (let duplicates = duplicated (pk_keys s);
             distinct_duplicate_values = unique [] duplicates;
             duplicate_record_count = length duplicates;
             distinct_keys_duplicated = length distinct_duplicate_values
         in if 0 < distinct_keys_duplicated then
              [[(''column'', PStr db_col_name),
                (''check'', PStr ''primary_key_violation''),
                (''distinct_keys_duplicated'', PInt (int distinct_keys_duplicated)),
                (''total_duplicate_records'', PInt (int duplicate_record_count)),
                (''sample_duplicate_values'',
                   PList (map (\<lambda>v. PStr (py_str L v)) (take 5 distinct_duplicate_values))),
                (''severity'', PStr ''high''),
                (''details'', PStr (''Primary key column contains duplicates for ''
                   @ str_of_nat distinct_keys_duplicated @ '' unique key(s), affecting ''
                   @ str_of_nat duplicate_record_count @ '' records total.''))]]
            else []))"

subsection \<open>CHECK constraints\<close>

text \<open>\<open>pd.to_numeric(column, errors='coerce')\<close>: \<open>None\<close> is NaN.  A \<open>datetime64[ns]\<close>
  column is read as its integer nanoseconds, NaT being the least 64-bit integer.\<close>

definition coerce_value :: "pylib \<Rightarrow> pyval \<Rightarrow> rat option" where
  "coerce_value L v =
     (case v of
        PInt i \<Rightarrow> Some (of_int i)
      | PNum r \<Rightarrow> Some r
      | PBool b \<Rightarrow> Some (if b then 1 else 0)
      | PStr s \<Rightarrow> (if s = [] then None else to_numeric_str L s)
      | _ \<Rightarrow> None)"

definition to_numeric_coerce :: "pylib \<Rightarrow> series \<Rightarrow> rat option list" where
  "to_numeric_coerce L s =
     (if dtype s = ''datetime64[ns]''
      then map (\<lambda>v. case v of PTs t \<Rightarrow> Some (of_int t)
                             | PNone \<Rightarrow> Some (- (2 ^ 63))
                             | _ \<Rightarrow> coerce_value L v) (vals s)
      else map (coerce_value L) (vals s))"

definition non_numeric_present :: "pylib \<Rightarrow> series \<Rightarrow> bool" where
  "non_numeric_present L s =
     (list_ex (\<lambda>x. x = None) (to_numeric_coerce L s) \<and> \<not> list_all isnull (vals s))"

text \<open>The pattern
  \<^verbatim>\<open>["`]?NAME["`]?\s*(>=|<=|>|<|!=|=)\s*(-?\d+(\.\d+)?)\<close>
  matched at the start of the text, ignoring case.  Each piece returns the remainders it
  can leave, in the order the backtracking matcher tries them.\<close>

definition is_space :: "char \<Rightarrow> bool" where
  "is_space c = ((of_char c :: nat) \<in> set [9, 10, 11, 12, 13, 28, 29, 30, 31, 32, 133, 160])"

definition is_digit :: "char \<Rightarrow> bool" where
  "is_digit c = (48 \<le> (of_char c :: nat) \<and> (of_char c :: nat) \<le> 57)"

definition strip :: "string \<Rightarrow> string" where
  "strip s = rev (dropWhile is_space (rev (dropWhile is_space s)))"

definition p_quote :: "string \<Rightarrow> string list" where
  "p_quote s =
     (case s of
        [] \<Rightarrow> [[]]
      | c # r \<Rightarrow> (if c = CHR 0x22 \<or> c = CHR 0x60 then [r, s] else [s]))"

definition p_name :: "string \<Rightarrow> string \<Rightarrow> string list" where
  "p_name nm s =
     (if starts_with (map lower_char nm) (map lower_char s)
      then [drop (length nm) s] else [])"

fun p_spaces :: "string \<Rightarrow> string list" where
  "p_spaces [] = [[]]"
| "p_spaces (c # r) = (if is_space c then p_spaces r @ [c # r] else [c # r])"

definition p_op :: "string \<Rightarrow> (string \<times> string) list" where
  "p_op s =
     concat (map (\<lambda>op. if starts_with op s then [(op, drop (length op) s)] else [])
                 [''>='', ''<='', ''>'', ''<'', ''!='', ''=''])"

definition digits_val :: "string \<Rightarrow> nat" where
  "digits_val ds = fold (\<lambda>c n. 10 * n + (of_char c - 48)) ds 0"

text \<open>\<open>-?\d+(\.\d+)?\<close> is the end of the pattern, so its longest reading is the match;
  the result is \<open>float\<close> of the matched text.\<close>

definition p_number :: "string \<Rightarrow> rat option" where
  "p_number s =
     (let neg = (s \<noteq> [] \<and> hd s = CHR ''-'');
          s1 = (if neg then tl s else s);
          ds = takeWhile is_digit s1;
          r = dropWhile is_digit s1;
          fs = (case r of [] \<Rightarrow> [] | c # r2 \<Rightarrow> if c = CHR ''.'' then takeWhile is_digit r2 else []);
          m = of_nat (digits_val ds) + of_nat (digits_val fs) / 10 ^ length fs
      in if ds = [] then None else Some (if neg then - m else m))"

definition re_match :: "string \<Rightarrow> string \<Rightarrow> (string \<times> rat) option" where
  "re_match nm txt =
     (case concat (map (\<lambda>s1. concat (map (\<lambda>s2. concat (map (\<lambda>s3. concat (map (\<lambda>s4.
              concat (map (\<lambda>os. concat (map (\<lambda>s6.
                 (case p_number s6 of None \<Rightarrow> [] | Some v \<Rightarrow> [(fst os, v)]))
              (p_spaces (snd os)))) (p_op s4)))
            (p_spaces s3))) (p_quote s2))) (p_name nm s1))) (p_quote txt)) of
        [] \<Rightarrow> None
      | m # ms \<Rightarrow> Some m)"

text \<open>The complement predicate of each operator; NaN compares false except under \<open>!=\<close>.
  The code compares in float64: \<open>check_one_constraint\<close> applies the predicate to the
  column's numbers and the constraint's literal after rounding both with \<open>f64\<close>.\<close>

definition violates :: "string \<Rightarrow> rat \<Rightarrow> rat option \<Rightarrow> bool" where
  "violates operator v x =
     (if operator = ''>'' then (case x of None \<Rightarrow> False | Some r \<Rightarrow> r \<le> v)
      else if operator = ''>='' then (case x of None \<Rightarrow> False | Some r \<Rightarrow> r < v)
      else if operator = ''<'' then (case x of None \<Rightarrow> False | Some r \<Rightarrow> v \<le> r)
      else if operator = ''<='' then (case x of None \<Rightarrow> False | Some r \<Rightarrow> v < r)
      else if operator = ''!='' then (case x of None \<Rightarrow> False | Some r \<Rightarrow> r = v)
      else if operator = ''='' then (case x of None \<Rightarrow> True | Some r \<Rightarrow> r \<noteq> v)
      else False)"

definition violated_rows :: "string \<Rightarrow> rat \<Rightarrow> rat option list \<Rightarrow> bool list" where
  "violated_rows operator v numeric_col =
     map (\<lambda>x. violates operator v x \<and> x \<noteq> None) numeric_col"

text \<open>\<open>df.loc[labels, col].tolist()\<close>: the values of the rows carrying each label.\<close>

definition loc_values :: "dataframe \<Rightarrow> series \<Rightarrow> nat list \<Rightarrow> pyval list" where
  "loc_values df s labels =
     concat (map (\<lambda>l. map snd (filter (\<lambda>iv. fst iv = l) (zip (index df) (vals s)))) labels)"

definition check_one_constraint ::
  "pylib \<Rightarrow> dataframe \<Rightarrow> string \<Rightarrow> series \<Rightarrow> check_constraint \<Rightarrow> pydict list \<times> log_event list" where
  "check_one_constraint L df db_col_name s c =
     (let txt = strip (sqltext c) in
      case re_match db_col_name txt of
        None \<Rightarrow> ([], [CheckConstraintSkipped db_col_name txt])
      | Some m \<Rightarrow>
          (if non_numeric_present L s then ([], [CheckConstraintSkipped db_col_name txt])
           else
             (let rows = violated_rows (fst m) (f64 L (snd m))
                           (map (map_option (f64 L)) (to_numeric_coerce L s));
                  violation_count = length (filter id rows);
                  affected_indices = take 5 (sel rows (index df));
                  sample_violating_values = take 5 (loc_values df s affected_indices)
              in if 0 < violation_count then
                   ([[(''column'', PStr db_col_name),
                      (''check'', PStr ''check_constraint_violation''),
                      (''constraint_name'', opt_str (cname c)),
                      (''sqltext'', PStr txt),
                      (''count'', PInt (int violation_count)),
                      (''affected_rows_sample_indices'', PList (map (\<lambda>i. PInt (int i)) affected_indices)),
                      (''sample_violating_values'',
                         PList (map (\<lambda>v. PStr (py_str L v)) sample_violating_values)),
                      (''severity'', PStr ''medium''),
                      (''details'', PStr (str_of_nat violation_count
                         @ '' values violate CHECK constraint '' @ sq @ txt @ sq @ ''.''))]], [])
                 else ([], []))))"

definition check_constraints_check ::
  "pylib \<Rightarrow> dataframe \<Rightarrow> string \<Rightarrow> series \<Rightarrow> check_constraint list \<Rightarrow> pydict list \<times> log_event list" where
  "check_constraints_check L df db_col_name s check_constraints =
     (let col_check_constraints = filter (\<lambda>c. contains_str db_col_name (sqltext c)) check_constraints;
          rs = map (check_one_constraint L df db_col_name s) col_check_constraints
      in (concat (map fst rs), concat (map snd rs)))"

subsection \<open>The loop over the table's columns\<close>

definition quality_check_column ::
  "pylib \<Rightarrow> dataframe \<Rightarrow> check_constraint list \<Rightarrow> string \<times> col_details
     \<Rightarrow> pydict list \<times> log_event list" where
  "quality_check_column L df check_constraints item =
     (let db_col_name = fst item; d = snd item in
      if \<not> has_column df (PStr db_col_name) then ([], [])
      else
        (case df_getitem df (PStr db_col_name) of
           SubFrame ss \<Rightarrow> ([], [DuplicateColumnQualitySkip db_col_name])
         | NoColumn \<Rightarrow> ([], [])
         | OneSeries s \<Rightarrow>
             (let cc = check_constraints_check L df db_col_name s check_constraints
              in (not_null_check df db_col_name d s @ pk_check L db_col_name d s @ fst cc,
                  snd cc))))"

text \<open>\<open>fetched\<close> is what \<open>inspector.get_check_constraints(table_name)\<close> returned, \<open>None\<close>
  when it raised (the checks then run without CHECK constraints).\<close>

definition run_data_quality_checks ::
  "pylib \<Rightarrow> dataframe \<Rightarrow> db_schema \<Rightarrow> check_constraint list option
     \<Rightarrow> pydict list \<times> log_event list" where
  "run_data_quality_checks L df schema fetched =
     (let check_constraints = (case fetched of None \<Rightarrow> [] | Some cs \<Rightarrow> cs);
          rs = map (quality_check_column L df check_constraints) schema
      in (concat (map fst rs), concat (map snd rs)))"

section \<open>validation_module: the pipeline for one sheet\<close>

text \<open>What the pipeline reads from outside: the engine factory, the clock, the file
  readers, the schema provider and the three answers of the language model (\<open>None\<close> when
  \<open>get_llm_streaming_response\<close> gave up).  \<open>pd.read_excel\<close> with \<open>sheet_name=None\<close>
  returns a dict of sheets instead of a DataFrame.\<close>

datatype frame_arg = AFrame dataframe | ASheets

datatype read_outcome = ReadRaises exn | ReadOk frame_arg

datatype db_outcome = DbRaises exn | DbMissing | DbFound db_schema

record env =
  engine_available :: bool
  now_iso :: string
  read_excel :: "string \<Rightarrow> string option \<Rightarrow> read_outcome"
  read_csv :: "string \<Rightarrow> read_outcome"
  get_db_schema :: "string \<Rightarrow> db_outcome"
  get_check_constraints :: "string \<Rightarrow> check_constraint list option"
  llm_schema_analysis :: "string option"
  llm_dynamic_rules :: "string option"
  llm_final_analysis :: "string option"

definition ends_with :: "string \<Rightarrow> string \<Rightarrow> bool" where
  "ends_with suffix s = starts_with (rev suffix) (rev s)"

definition basename :: "string \<Rightarrow> string" where
  "basename path = rev (takeWhile (\<lambda>c. c \<noteq> CHR ''/'') (rev path))"

definition py_type_name :: "pyval \<Rightarrow> string" where
  "py_type_name v =
     (case v of
        PNone \<Rightarrow> ''NoneType'' | PBool b \<Rightarrow> ''bool'' | PInt i \<Rightarrow> ''int'' | PNum r \<Rightarrow> ''float''
      | PStr s \<Rightarrow> ''str'' | PTs t \<Rightarrow> ''Timestamp'' | PList xs \<Rightarrow> ''list'' | PDict d \<Rightarrow> ''dict'')"

definition no_attribute :: "string \<Rightarrow> string \<Rightarrow> exn" where
  "no_attribute ty attr =
     AttributeError (sq @ ty @ sq @ '' object has no attribute '' @ sq @ attr @ sq)"

subsection \<open>Step 1: schema extraction and its guard\<close>

definition extract_step ::
  "pylib \<Rightarrow> frame_arg \<Rightarrow> string \<Rightarrow> string option \<Rightarrow> pydict \<times> frame_arg" where
  "extract_step L arg file_path sheet_name =
     (case arg of
        AFrame df \<Rightarrow>
          (let r = extract_schema_from_df L df file_path sheet_name in (fst r, AFrame (snd r)))
      | ASheets \<Rightarrow>
          ([(''file_name'', PStr file_path), (''sheet_name'', opt_str sheet_name),
            (''total_rows'', PInt 0), (''columns'', PDict []),
            (''error'', PStr (exn_str (no_attribute ''dict'' ''dropna'')))], ASheets))"

text \<open>Python truthiness of \<open>file_schema.get("columns")\<close>.\<close>

definition truthy :: "pyval \<Rightarrow> bool" where
  "truthy v =
     (case v of
        PNone \<Rightarrow> False | PBool b \<Rightarrow> b | PInt i \<Rightarrow> i \<noteq> 0 | PNum r \<Rightarrow> r \<noteq> 0
      | PStr s \<Rightarrow> s \<noteq> [] | PTs t \<Rightarrow> True | PList xs \<Rightarrow> xs \<noteq> [] | PDict d \<Rightarrow> d \<noteq> [])"

definition sheet_display_name :: "string option \<Rightarrow> string" where
  "sheet_display_name sheet_name = (case sheet_name of None \<Rightarrow> ''CSV Data'' | Some n \<Rightarrow> n)"

definition check_extracted :: "pydict \<Rightarrow> string option \<Rightarrow> exn + unit" where
  "check_extracted file_schema sheet_name =
     (if dict_has file_schema ''error'' \<or> \<not> truthy (dict_get file_schema ''columns'' PNone)
      then Inl (ValueError (''Schema extraction failed for sheet '' @ sq
                  @ sheet_display_name sheet_name @ sq))
      else Inr ())"

subsection \<open>Step 2: table schema and the reconciliation answer\<close>

definition load_db_schema :: "env \<Rightarrow> string \<Rightarrow> exn + db_schema" where
  "load_db_schema E target_table_name =
     (case get_db_schema E target_table_name of
        DbRaises e \<Rightarrow> Inl e
      | DbMissing \<Rightarrow> Inl (ValueError (''Database table '' @ sq @ target_table_name @ sq
                            @ '' does not exist.''))
      | DbFound schema \<Rightarrow> Inr schema)"

definition schema_analysis :: "env \<Rightarrow> pylib \<Rightarrow> exn + pyval" where
  "schema_analysis E L =
     (case llm_schema_analysis E of
        None \<Rightarrow> Inl (ValueError ''Failed to get schema analysis from LLM.'')
      | Some response \<Rightarrow>
          (case json_loads L response of
             None \<Rightarrow> Inl (ValueError ''LLM did not return valid JSON for schema analysis.'')
           | Some j \<Rightarrow> Inr j))"

subsection \<open>Step 3: renaming\<close>

text \<open>\<open>schema_analysis_json.get("naming_mismatches", {})\<close> exists on a dict only.\<close>

definition naming_mismatches :: "pyval \<Rightarrow> exn + pyval" where
  "naming_mismatches schema_analysis_json =
     (case schema_analysis_json of
        PDict d \<Rightarrow> Inr (dict_get d ''naming_mismatches'' (PDict []))
      | _ \<Rightarrow> Inl (no_attribute (py_type_name schema_analysis_json) ''get''))"

definition new_label :: "pydict \<Rightarrow> pyval \<Rightarrow> pyval" where
  "new_label m l =
     (case l of
        PStr k \<Rightarrow> (case map_of m k of None \<Rightarrow> l | Some t \<Rightarrow> t)
      | _ \<Rightarrow> l)"

text \<open>\<open>df.rename(columns=m)\<close> returns a new DataFrame with every label that is a key of
  the dict \<open>m\<close> replaced by its value, whatever that value is.  A mapper that is neither
  a dict nor callable raises a TypeError; \<open>None\<close> as mapper is refused at once.\<close>

definition rename_columns :: "pyval \<Rightarrow> dataframe \<Rightarrow> exn + dataframe" where
  "rename_columns mapper df =
     (case mapper of
        PDict m \<Rightarrow> Inr (df\<lparr>columns := map (\<lambda>ls. (new_label m (fst ls), snd ls)) (columns df)\<rparr>)
      | PNone \<Rightarrow> Inl (TypeError ''must pass an index to rename'')
      | _ \<Rightarrow> Inl (TypeError (sq @ py_type_name mapper @ sq @ '' object is not callable'')))"

subsection \<open>Step 4: dynamic rules\<close>

definition dynamic_rules :: "env \<Rightarrow> pylib \<Rightarrow> pyval" where
  "dynamic_rules E L =
     (case llm_dynamic_rules E of
        None \<Rightarrow> PList []
      | Some response \<Rightarrow>
          (if response = [] then PList []
           else (case json_loads L response of
                   None \<Rightarrow> PList [PDict [(''error'', PStr ''Failed to generate dynamic rules'')]]
                 | Some j \<Rightarrow> j)))"

subsection \<open>Step 5: the violation summary\<close>

fun map_exn :: "('a \<Rightarrow> exn + 'b) \<Rightarrow> 'a list \<Rightarrow> exn + 'b list" where
  "map_exn f [] = Inr []"
| "map_exn f (x # xs) =
     (case f x of
        Inl e \<Rightarrow> Inl e
      | Inr y \<Rightarrow> (case map_exn f xs of Inl e \<Rightarrow> Inl e | Inr ys \<Rightarrow> Inr (y # ys)))"

definition type_summary_entry :: "pydict \<Rightarrow> exn + pyval" where
  "type_summary_entry v =
     (case dict_item v ''column'' of Inl e \<Rightarrow> Inl e | Inr c \<Rightarrow>
       (case dict_item v ''expected_db_type'' of Inl e \<Rightarrow> Inl e | Inr x \<Rightarrow>
         (case dict_item v ''found_file_type'' of Inl e \<Rightarrow> Inl e | Inr f \<Rightarrow>
            Inr (PDict [(''column'', c), (''expected'', x), (''found'', f)]))))"

definition dq_summary_entry :: "pydict \<Rightarrow> exn + pyval" where
  "dq_summary_entry v =
     (case dict_item v ''column'' of Inl e \<Rightarrow> Inl e | Inr c \<Rightarrow>
       (case dict_item v ''check'' of Inl e \<Rightarrow> Inl e | Inr k \<Rightarrow>
         (case dict_item v ''count'' of Inl e \<Rightarrow> Inl e | Inr n \<Rightarrow>
            Inr (PDict [(''column'', c), (''check'', k), (''count'', n),
                        (''severity'', dict_get v ''severity'' (PStr ''medium''))]))))"

definition create_violation_summary :: "pydict list \<Rightarrow> pydict list \<Rightarrow> exn + pydict" where
  "create_violation_summary types dq =
     (case map_exn type_summary_entry types of Inl e \<Rightarrow> Inl e | Inr ts \<Rightarrow>
       (case map_exn dq_summary_entry dq of Inl e \<Rightarrow> Inl e | Inr ds \<Rightarrow>
          Inr [(''type_mismatch_summary'', PList ts), (''data_quality_issue_summary'', PList ds)]))"

subsection \<open>Steps 6 and 7: the base report and the narrative answer\<close>

definition base_report ::
  "env \<Rightarrow> string \<Rightarrow> string option \<Rightarrow> pydict \<Rightarrow> pydict list \<Rightarrow> pydict list \<Rightarrow> pyval \<Rightarrow> pydict" where
  "base_report E file_path sheet_name file_schema type_violations dq_violations rules =
     [(''file_name'', PStr (basename file_path)),
      (''sheet_name'', opt_str sheet_name),
      (''total_rows_checked'', dict_get file_schema ''total_rows'' PNone),
      (''validated_at'', PStr (now_iso E)),
      (''data_type_mismatch'', PList (map PDict type_violations)),
      (''data_quality_issues'', PList (map PDict dq_violations)),
      (''dynamic_validation_rules'', rules),
      (''validation_summary'', PDict []),
      (''data_quality_score'', PDict []),
      (''triage_plan'', PList []),
      (''append_upsert_suggestion'', PDict []),
      (''schema_drift'', PDict []),
      (''root_cause_analysis'', PDict []),
      (''overall_analysis'', PDict [])]"

text \<open>\<open>dict.update(x)\<close> for whatever \<open>json.loads\<close> returned: a dict is merged; a sequence
  must consist of two-element items, each read as a key and a value; anything else is
  not iterable.  Reports are string-keyed in the model: a key that is a number, a
  truth value or \<open>None\<close> is filed under its text \<open>str(key)\<close>; a list or dict as key is
  not hashable.\<close>

definition is_container :: "pyval \<Rightarrow> bool" where
  "is_container v = (case v of PList xs \<Rightarrow> True | PDict d \<Rightarrow> True | _ \<Rightarrow> False)"

definition update_item :: "pylib \<Rightarrow> pyval \<Rightarrow> exn + (string \<times> pyval)" where
  "update_item L x =
     (case x of
        PList [k, v] \<Rightarrow>
          (if is_container k then Inl (TypeError ''unhashable type'') else Inr (py_str L k, v))
      | PStr [a, b] \<Rightarrow> Inr ([a], PStr [b])
      | PDict [k1, k2] \<Rightarrow> Inr (fst k1, PStr (fst k2))
      | PList xs \<Rightarrow> Inl (ValueError ''dictionary update sequence element has the wrong length'')
      | PStr s \<Rightarrow> Inl (ValueError ''dictionary update sequence element has the wrong length'')
      | PDict d \<Rightarrow> Inl (ValueError ''dictionary update sequence element has the wrong length'')
      | _ \<Rightarrow> Inl (TypeError ''cannot convert dictionary update sequence element to a sequence''))"

definition py_update :: "pylib \<Rightarrow> pydict \<Rightarrow> pyval \<Rightarrow> exn + pydict" where
  "py_update L d x =
     (case x of
        PDict e \<Rightarrow> Inr (dict_update d e)
      | PList xs \<Rightarrow>
          (case map_exn (update_item L) xs of
             Inl e \<Rightarrow> Inl e
           | Inr kvs \<Rightarrow> Inr (dict_update d kvs))
      | PStr s \<Rightarrow>
          (if s = [] then Inr d
           else Inl (ValueError ''dictionary update sequence element has the wrong length''))
      | _ \<Rightarrow> Inl (TypeError (sq @ py_type_name x @ sq @ '' object is not iterable'')))"

definition final_analysis :: "env \<Rightarrow> pylib \<Rightarrow> pydict \<Rightarrow> exn + pydict" where
  "final_analysis E L report =
     (case llm_final_analysis E of
        None \<Rightarrow> Inl (ValueError ''Failed to get final analysis from LLM.'')
      | Some response \<Rightarrow>
          (case json_loads L response of
             None \<Rightarrow>
               Inr (dict_set report ''validation_summary''
                      (PDict [(''status'', PStr ''Error''),
                              (''details'', PStr ''LLM analysis parsing failed.'')]))
           | Some llm_analysis_json \<Rightarrow> py_update L report llm_analysis_json))"

definition error_report :: "env \<Rightarrow> string \<Rightarrow> string option \<Rightarrow> exn \<Rightarrow> pydict" where
  "error_report E file_path sheet_name e =
     [(''file_name'', PStr file_path),
      (''sheet_name'', opt_str sheet_name),
      (''validated_at'', PStr (now_iso E)),
      (''validation_summary'', PDict [(''status'', PStr ''Error''), (''details'', PStr (exn_str e))]),
      (''error'', PStr (exn_str e))]"

subsection \<open>\<open>_run_validation_for_sheet_internal\<close>\<close>

text \<open>Steps 3 to 7 on the DataFrame that extraction left behind.\<close>

definition deep_validation ::
  "env \<Rightarrow> pylib \<Rightarrow> dataframe \<Rightarrow> db_schema \<Rightarrow> string \<Rightarrow> pyval
     \<Rightarrow> exn + (pydict list \<times> pydict list)" where
  "deep_validation E L df schema target_table_name schema_analysis_json =
     (case naming_mismatches schema_analysis_json of Inl e \<Rightarrow> Inl e | Inr mapper \<Rightarrow>
       (case rename_columns mapper df of Inl e \<Rightarrow> Inl e | Inr mapped_df \<Rightarrow>
          Inr (fst (validate_data_types L mapped_df schema),
               fst (run_data_quality_checks L mapped_df schema
                      (get_check_constraints E target_table_name)))))"

definition report_steps ::
  "env \<Rightarrow> pylib \<Rightarrow> string \<Rightarrow> string option \<Rightarrow> pydict \<Rightarrow> pydict list \<times> pydict list
     \<Rightarrow> exn + pydict" where
  "report_steps E L file_path sheet_name file_schema violations =
     (let rules = dynamic_rules E L in
      case create_violation_summary (fst violations) (snd violations) of
        Inl e \<Rightarrow> Inl e
      | Inr violations_summary \<Rightarrow>
          final_analysis E L
            (base_report E file_path sheet_name file_schema (fst violations) (snd violations) rules))"

text \<open>The body of the \<open>try\<close>: its outcome and \<open>schema_analysis_json\<close> as it stands when
  the body is left.\<close>

definition try_body ::
  "env \<Rightarrow> pylib \<Rightarrow> frame_arg \<Rightarrow> string \<Rightarrow> string option \<Rightarrow> string
     \<Rightarrow> (exn + pydict) \<times> pyval" where
  "try_body E L arg file_path sheet_name target_table_name =
     (let ex = extract_step L arg file_path sheet_name; file_schema = fst ex in
      (case check_extracted file_schema sheet_name of Inl e \<Rightarrow> (Inl e, PDict []) | Inr u \<Rightarrow>
      (case load_db_schema E target_table_name of Inl e \<Rightarrow> (Inl e, PDict []) | Inr schema \<Rightarrow>
      (case schema_analysis E L of Inl e \<Rightarrow> (Inl e, PDict []) | Inr schema_analysis_json \<Rightarrow>
      (case snd ex of
         ASheets \<Rightarrow> (Inl (no_attribute ''dict'' ''rename''), schema_analysis_json)
       | AFrame df \<Rightarrow>
           (case deep_validation E L df schema target_table_name schema_analysis_json of
              Inl e \<Rightarrow> (Inl e, schema_analysis_json)
            | Inr violations \<Rightarrow>
                (report_steps E L file_path sheet_name file_schema violations,
                 schema_analysis_json)))))))"

definition run_validation_for_sheet_internal ::
  "env \<Rightarrow> pylib \<Rightarrow> frame_arg \<Rightarrow> string \<Rightarrow> string option \<Rightarrow> string option
     \<Rightarrow> exn + (pydict \<times> pyval)" where
  "run_validation_for_sheet_internal E L arg file_path sheet_name target_table_name =
     (case target_table_name of
        None \<Rightarrow> Inl (ValueError
          ''Internal Error: _run_validation_for_sheet_internal called without a target_table_name.'')
      | Some t \<Rightarrow>
          (let r = try_body E L arg file_path sheet_name t in
           case fst r of
             Inr sheet_report \<Rightarrow> Inr (sheet_report, snd r)
           | Inl e \<Rightarrow> Inr (error_report E file_path sheet_name e, snd r)))"

subsection \<open>\<open>run_validation_for_single_sheet\<close>\<close>

definition read_sheet :: "env \<Rightarrow> string \<Rightarrow> string option \<Rightarrow> exn + frame_arg" where
  "read_sheet E file_path read_sheet_name =
     (if ends_with ''.xls'' file_path \<or> ends_with ''.xlsx'' file_path then
        (case read_excel E file_path read_sheet_name of ReadRaises e \<Rightarrow> Inl e | ReadOk a \<Rightarrow> Inr a)
      else if ends_with ''.csv'' file_path then
        (case read_csv E file_path of ReadRaises e \<Rightarrow> Inl e | ReadOk a \<Rightarrow> Inr a)
      else Inl (ValueError (''Unsupported file type: '' @ file_path
                  @ ''. Only .csv, .xls, and .xlsx are supported.'')))"

definition assemble_final_report :: "pydict \<Rightarrow> pyval \<Rightarrow> pydict" where
  "assemble_final_report sheet_report schema_analysis_json =
     (let f1 = (if dict_has sheet_report ''file_name''
                then [(''file_name'', dict_get sheet_report ''file_name'' PNone)] else []);
          r1 = (if dict_has sheet_report ''file_name''
                then dict_pop sheet_report ''file_name'' else sheet_report);
          f2 = (if dict_has r1 ''sheet_name''
                then dict_set f1 ''sheet_name'' (dict_get r1 ''sheet_name'' PNone) else f1);
          r2 = (if dict_has r1 ''sheet_name'' then dict_pop r1 ''sheet_name'' else r1);
          f3 = dict_set f2 ''schema_mismatch'' schema_analysis_json
      in dict_update f3 r2)"

definition critical_error :: "exn \<Rightarrow> pydict" where
  "critical_error e = [(''error'', PStr (''A critical error occurred: '' @ exn_str e))]"

definition run_validation_for_single_sheet ::
  "env \<Rightarrow> pylib \<Rightarrow> string \<Rightarrow> string \<Rightarrow> string option \<Rightarrow> pydict" where
  "run_validation_for_single_sheet E L file_path sheet_name table_name =
     (if \<not> engine_available E then
        [(''error'', PStr ''Failed to create Databricks engine. Check .env credentials.'')]
      else
        (let read_sheet_name = (if sheet_name \<noteq> ''csv_data'' then Some sheet_name else None) in
         case read_sheet E file_path read_sheet_name of
           Inl e \<Rightarrow> critical_error e
         | Inr current_df \<Rightarrow>
             (case run_validation_for_sheet_internal E L current_df file_path read_sheet_name
                     table_name of
                Inl e \<Rightarrow> critical_error e
              | Inr r \<Rightarrow> assemble_final_report (fst r) (snd r))))"

section \<open>Notions the properties are stated with\<close>

text \<open>The rows of a frame: each index label with the values of its row, column by
  column.\<close>

definition rows_of :: "dataframe \<Rightarrow> (nat \<times> pyval list) list" where
  "rows_of df =
     map (\<lambda>j. (index df ! j, map (\<lambda>ls. vals (snd ls) ! j) (columns df)))
         [0..<length (index df)]"

text \<open>The five type tags the spec allows for \<open>inferred_type\<close>, and the
  \<open>inferred_type\<close> entries a schema holds, by column key.\<close>

definition canonical_tags :: "string list" where
  "canonical_tags = [''integer'', ''floating'', ''textual'', ''temporal'', ''boolean'']"

definition inferred_types :: "pydict \<Rightarrow> (string \<times> pyval) list" where
  "inferred_types schema =
     (case map_of schema ''columns'' of
        Some (PDict cd) \<Rightarrow>
          map (\<lambda>ke. (fst ke, case snd ke of PDict d \<Rightarrow> dict_get d ''inferred_type'' PNone
                                        | _ \<Rightarrow> PNone)) cd
      | _ \<Rightarrow> [])"

text \<open>The violations of one kind reported for one column.\<close>

definition is_violation :: "string \<Rightarrow> string \<Rightarrow> pydict \<Rightarrow> bool" where
  "is_violation nm check v =
     (map_of v ''column'' = Some (PStr nm) \<and> map_of v ''check'' = Some (PStr check))"

text \<open>The three fields the spec wants in every report.\<close>

definition report_keys :: "pydict \<Rightarrow> bool" where
  "report_keys r = (dict_has r ''file_name'' \<and> dict_has r ''sheet_name'' \<and> dict_has r ''validated_at'')"






text \<open>Primary-key duplicates.  Two key values are the same value when Python's \<open>==\<close> says
  so (\<open>1\<close>, \<open>1.0\<close> and \<open>True\<close> are one value): \<open>key_norm\<close> picks one representative.
  \<open>repeated\<close> keeps the keys that occur more than once.  \<open>claimed_keys\<close> are the keys as the
  spec words them, neither missing nor an empty string; \<open>kept_keys\<close> drops an empty string
  only in a column of dtype \<open>object\<close>; \<open>duplicate_rows\<close> are the kept keys that repeat.\<close>

definition key_norm :: "pyval \<Rightarrow> pyval" where
  "key_norm v = (case num_val v of Some r \<Rightarrow> PNum r | None \<Rightarrow> v)"

definition occurrences :: "pyval \<Rightarrow> pyval list \<Rightarrow> nat" where
  "occurrences v ks = length (filter (\<lambda>k. key_norm k = key_norm v) ks)"

definition repeated :: "pyval list \<Rightarrow> pyval list" where
  "repeated ks = filter (\<lambda>v. 1 < occurrences v ks) ks"

definition claimed_keys :: "series \<Rightarrow> pyval list" where
  "claimed_keys s = filter (\<lambda>v. v \<noteq> PNone \<and> v \<noteq> PStr []) (vals s)"

definition kept_keys :: "series \<Rightarrow> pyval list" where
  "kept_keys s =
     filter (\<lambda>v. v \<noteq> PNone \<and> \<not> (dtype s = ''object'' \<and> v = PStr [])) (vals s)"

definition duplicate_rows :: "series \<Rightarrow> pyval list" where
  "duplicate_rows s = repeated (kept_keys s)"

section \<open>Example inputs\<close>

text \<open>A stand-in for the library routines, enough for the examples: it reads the
  strings \<open>1\<close> and \<open>2\<close> as numbers and the text \<open>{}\<close> as an empty JSON object, and
  rounds nothing (every number of the examples is a float64 value).\<close>

definition demo_lib :: pylib where
  "demo_lib =
     \<lparr> str_other = (\<lambda>v. ''nan''),
       to_numeric_str = (\<lambda>s. if s = ''1'' then Some 1 else if s = ''2'' then Some 2 else None),
       float_of_str = (\<lambda>s. if s = ''1'' then Some (Finite 1)
                           else if s = ''2'' then Some (Finite 2) else None),
       f64 = (\<lambda>r. r),
       json_loads = (\<lambda>s. if s = ''{}'' then Some (PDict []) else None) \<rparr>"

text \<open>A file \<open>orders.csv\<close> whose key column repeats the value 1, validated against a
  table \<open>orders\<close> with that column as primary key; every external service answers.\<close>

definition orders_df :: dataframe where
  "orders_df =
     \<lparr> index = [0, 1, 2],
       columns = [(PStr ''order_id'', \<lparr> dtype = ''int64'', vals = [PInt 1, PInt 1, PInt 2] \<rparr>)] \<rparr>"

definition orders_schema :: db_schema where
  "orders_schema =
     [(''order_id'', \<lparr> col_type = ''INTEGER'', nullable = False, primary_key = True \<rparr>)]"

definition orders_env :: env where
  "orders_env =
     \<lparr> engine_available = True,
       now_iso = ''2025-01-01T00:00:00+00:00'',
       read_excel = (\<lambda>p s. ReadRaises (ValueError ''no such file'')),
       read_csv = (\<lambda>p. ReadOk (AFrame orders_df)),
       get_db_schema = (\<lambda>t. DbFound orders_schema),
       get_check_constraints = (\<lambda>t. Some []),
       llm_schema_analysis = Some ''{}'',
       llm_dynamic_rules = None,
       llm_final_analysis = Some ''{}'' \<rparr>"

text \<open>A frame with a fully empty row between two rows that hold values.\<close>

definition blank_row_df :: dataframe where
  "blank_row_df =
     \<lparr> index = [0, 1, 2],
       columns = [(PStr ''amount'', \<lparr> dtype = ''float64'', vals = [PNum 1, PNone, PNum 3] \<rparr>),
                  (PStr ''note'', \<lparr> dtype = ''object'', vals = [PStr ''x'', PNone, PNone] \<rparr>)] \<rparr>"

text \<open>A frame with a signed and an unsigned 64-bit integer column.\<close>

definition wide_ints_df :: dataframe where
  "wide_ints_df =
     \<lparr> index = [0, 1],
       columns = [(PStr ''qty'', \<lparr> dtype = ''int64'', vals = [PInt 1, PInt 2] \<rparr>),
                  (PStr ''big'', \<lparr> dtype = ''uint64'',
                     vals = [PInt 18446744073709551615, PInt 18446744073709551614] \<rparr>)] \<rparr>"

text \<open>A table column \<open>price\<close> under the constraint \<open>price > 0\<close>, and three frames for it:
  one with a missing price among numeric ones, the spec's example with the text
  \<open>abc\<close>, and the same without it.\<close>

definition price_schema :: db_schema where
  "price_schema = [(''price'', \<lparr> col_type = ''DOUBLE'', nullable = True, primary_key = False \<rparr>)]"

definition price_check :: check_constraint where
  "price_check = \<lparr> cname = Some ''ck_price'', sqltext = ''price > 0'' \<rparr>"

definition missing_price_df :: dataframe where
  "missing_price_df =
     \<lparr> index = [0, 1, 2],
       columns = [(PStr ''id'', \<lparr> dtype = ''int64'', vals = [PInt 1, PInt 2, PInt 3] \<rparr>),
                  (PStr ''price'', \<lparr> dtype = ''float64'', vals = [PNum 10, PNone, PNum (- 5)] \<rparr>)] \<rparr>"

definition abc_price_df :: dataframe where
  "abc_price_df =
     \<lparr> index = [0, 1, 2, 3, 4],
       columns = [(PStr ''price'', \<lparr> dtype = ''object'',
                     vals = [PInt 10, PInt (- 5), PInt 0, PInt 20, PStr ''abc''] \<rparr>)] \<rparr>"

definition numeric_price_df :: dataframe where
  "numeric_price_df =
     \<lparr> index = [0, 1, 2, 3],
       columns = [(PStr ''price'', \<lparr> dtype = ''int64'',
                     vals = [PInt 10, PInt (- 5), PInt 0, PInt 20] \<rparr>)] \<rparr>"

text \<open>A naming map that sends the file columns \<open>qty\<close> and \<open>amount\<close> to the one table
  column \<open>total\<close>.\<close>

definition dup_df :: dataframe where
  "dup_df =
     \<lparr> index = [0, 1],
       columns = [(PStr ''qty'', \<lparr> dtype = ''object'', vals = [PStr ''x'', PNone] \<rparr>),
                  (PStr ''amount'', \<lparr> dtype = ''object'', vals = [PStr ''y'', PStr ''y''] \<rparr>)] \<rparr>"

definition dup_map :: pydict where
  "dup_map = [(''qty'', PStr ''total''), (''amount'', PStr ''total'')]"

definition total_schema :: db_schema where
  "total_schema = [(''total'', \<lparr> col_type = ''INTEGER'', nullable = False, primary_key = True \<rparr>)]"

text \<open>The spec's example of an \<open>INTEGER\<close> column read as text, and a \<open>timestamp\<close> column
  read as text.\<close>

definition int_text_df :: dataframe where
  "int_text_df =
     \<lparr> index = [0, 1, 2],
       columns = [(PStr ''qty'', \<lparr> dtype = ''object'', vals = [PStr ''1'', PStr ''2'', PStr ''x''] \<rparr>)] \<rparr>"

definition int_schema :: db_schema where
  "int_schema = [(''qty'', \<lparr> col_type = ''INTEGER'', nullable = True, primary_key = False \<rparr>)]"

definition dates_df :: dataframe where
  "dates_df =
     \<lparr> index = [0, 1],
       columns = [(PStr ''shipped'', \<lparr> dtype = ''object'',
                     vals = [PStr ''2024-01-31'', PStr ''soon''] \<rparr>)] \<rparr>"

definition dates_schema :: db_schema where
  "dates_schema = [(''shipped'', \<lparr> col_type = ''timestamp(6)'', nullable = True, primary_key = False \<rparr>)]"

text \<open>The spec's example of a required \<open>INTEGER\<close> column holding a missing entry and an
  empty string.\<close>

definition mixed_df :: dataframe where
  "mixed_df =
     \<lparr> index = [0, 1, 2, 3, 4],
       columns = [(PStr ''qty'', \<lparr> dtype = ''object'',
                     vals = [PInt 1, PNone, PInt 3, PStr [], PInt 5] \<rparr>)] \<rparr>"

definition required_int_schema :: db_schema where
  "required_int_schema =
     [(''qty'', \<lparr> col_type = ''INTEGER'', nullable = False, primary_key = False \<rparr>)]"

text \<open>The spec's example of a primary-key column \<open>[1,1,2,3,3,3]\<close>.\<close>

definition repeated_ids_df :: dataframe where
  "repeated_ids_df =
     \<lparr> index = [0, 1, 2, 3, 4, 5],
       columns = [(PStr ''id'', \<lparr> dtype = ''int64'',
                     vals = [PInt 1, PInt 1, PInt 2, PInt 3, PInt 3, PInt 3] \<rparr>)] \<rparr>"

definition id_schema :: db_schema where
  "id_schema = [(''id'', \<lparr> col_type = ''INTEGER'', nullable = True, primary_key = True \<rparr>)]"

text \<open>Two runs over \<open>mixed_df\<close> in which everything works up to the narrative call: in
  the first the call gives no answer, in the second it answers with text that is not
  JSON.\<close>

definition narrative_down_env :: env where
  "narrative_down_env =
     \<lparr> engine_available = True,
       now_iso = ''2025-01-01T00:00:00+00:00'',
       read_excel = (\<lambda>p s. ReadRaises (ValueError ''no such file'')),
       read_csv = (\<lambda>p. ReadOk (AFrame mixed_df)),
       get_db_schema = (\<lambda>t. DbFound required_int_schema),
       get_check_constraints = (\<lambda>t. Some []),
       llm_schema_analysis = Some ''{}'',
       llm_dynamic_rules = None,
       llm_final_analysis = None \<rparr>"

definition narrative_garbled_env :: env where
  "narrative_garbled_env = narrative_down_env\<lparr>llm_final_analysis := Some ''Sorry, I cannot help.''\<rparr>"


definition str_keys_df :: dataframe where
  "str_keys_df =
     \<lparr> index = [0, 1, 2, 3],
       columns = [(PStr ''id'', \<lparr> dtype = ''str'',
                     vals = [PStr ''a'', PStr ''a'', PStr [], PStr []] \<rparr>)] \<rparr>"

definition str_dates_df :: dataframe where
  "str_dates_df =
     \<lparr> index = [0, 1],
       columns = [(PStr ''shipped'', \<lparr> dtype = ''str'',
                     vals = [PStr ''2024-01-31'', PStr ''soon''] \<rparr>)] \<rparr>"

definition str_int_text_df :: dataframe where
  "str_int_text_df =
     \<lparr> index = [0, 1, 2],
       columns = [(PStr ''qty'', \<lparr> dtype = ''str'', vals = [PStr ''1'', PStr ''2'', PStr ''x''] \<rparr>)] \<rparr>"

section \<open>Properties\<close>

text \<open>
  C1.  The spec says the summarizing step is total and always succeeds, so that the
  pipeline always goes from deep validation through summarizing to the snapshot.  The
  code reads \<open>v["count"]\<close> of every data-quality violation, but a
  \<open>primary_key_violation\<close> has no such key: on the violation list that the checks
  produce for \<open>orders_df\<close> the summary raises KeyError, and the pipeline ends in its
  error report (status \<open>Error\<close>, message \<open>'count'\<close>) without the data-quality section.
\<close>

theorem C1_summary_raises_on_primary_key_violation:
  "create_violation_summary []
      (fst (run_data_quality_checks L orders_df orders_schema None)) = Inl (KeyError ''count'')
   \<and> map_of (run_validation_for_single_sheet orders_env demo_lib ''orders.csv'' ''csv_data''
               (Some ''orders'')) ''validation_summary''
       = Some (PDict [(''status'', PStr ''Error''), (''details'', PStr (sq @ ''count'' @ sq))])
   \<and> \<not> dict_has (run_validation_for_single_sheet orders_env demo_lib ''orders.csv'' ''csv_data''
               (Some ''orders'')) ''data_quality_issues''"
proof -
  have a: "create_violation_summary []
      (fst (run_data_quality_checks L orders_df orders_schema None)) = Inl (KeyError ''count'')"
    by (simp add: create_violation_summary_def run_data_quality_checks_def
        quality_check_column_def orders_df_def orders_schema_def has_column_def df_getitem_def
        py_eq_def num_val_def not_null_check_def null_count_def isnull_def
        empty_string_count_def is_db_string_type_def pk_check_def pk_keys_def dropna_def
        duplicated_def check_constraints_check_def dq_summary_entry_def dict_item_def Let_def)
  have b: "map_of (run_validation_for_single_sheet orders_env demo_lib ''orders.csv'' ''csv_data''
               (Some ''orders'')) ''validation_summary''
       = Some (PDict [(''status'', PStr ''Error''), (''details'', PStr (sq @ ''count'' @ sq))])"
    by code_simp
  have c: "\<not> dict_has (run_validation_for_single_sheet orders_env demo_lib ''orders.csv''
               ''csv_data'' (Some ''orders'')) ''data_quality_issues''"
    by code_simp
  from a b c show ?thesis by blast
qed

subsection \<open>Row selection\<close>

lemma sel_map: "sel keep (map f xs) = map f (sel keep xs)"
proof -
  have "zip (map f xs) keep = map (\<lambda>p. (f (fst p), snd p)) (zip xs keep)"
    by (simp add: zip_map1 case_prod_beta)
  then show ?thesis
    by (simp add: sel_def filter_map comp_def)
qed

lemma sel_nth: "sel keep xs = map (\<lambda>j. xs ! j) (sel keep [0..<length xs])"
proof -
  have "sel keep xs = sel keep (map (\<lambda>j. xs ! j) [0..<length xs])"
    by (simp add: map_nth)
  then show ?thesis by (simp only: sel_map)
qed

lemma sel_pred: "sel (map p xs) (map f xs) = map f (filter p xs)"
  by (induction xs) (auto simp: sel_def)

lemma length_sel: "length xs = length ys \<Longrightarrow> length (sel keep xs) = length (sel keep ys)"
  using sel_nth [of keep xs] sel_nth [of keep ys] by (metis length_map)

lemma rows_of_select:
  assumes "df_ok df"
  shows "rows_of (select_rows keep df) = sel keep (rows_of df)"
proof -
  let ?n = "length (index df)"
  let ?P = "sel keep [0..<?n]"
  have len: "\<And>ls. ls \<in> set (columns df) \<Longrightarrow> length (vals (snd ls)) = ?n"
    using assms by (simp add: df_ok_def list_all_iff)
  have idx: "sel keep (index df) = map (\<lambda>j. index df ! j) ?P"
    by (rule sel_nth)
  have col: "\<And>ls. ls \<in> set (columns df)
      \<Longrightarrow> sel keep (vals (snd ls)) = map (\<lambda>j. vals (snd ls) ! j) ?P"
    using sel_nth [of keep] len by metis
  have "rows_of (select_rows keep df)
      = map (\<lambda>j. (index df ! (?P ! j), map (\<lambda>ls. vals (snd ls) ! (?P ! j)) (columns df)))
            [0..<length ?P]"
    unfolding rows_of_def select_rows_def
    by (auto simp: idx col comp_def)
  also have "\<dots> = map (\<lambda>i. (index df ! i, map (\<lambda>ls. vals (snd ls) ! i) (columns df)))
                     (map (\<lambda>j. ?P ! j) [0..<length ?P])"
    by (simp add: comp_def)
  also have "\<dots> = map (\<lambda>i. (index df ! i, map (\<lambda>ls. vals (snd ls) ! i) (columns df))) ?P"
    by (simp only: map_nth)
  also have "\<dots> = sel keep (rows_of df)"
    by (simp add: rows_of_def sel_map)
  finally show ?thesis .
qed

lemma rows_of_dropna_all:
  assumes "df_ok df"
  shows "rows_of (dropna_all df)
       = filter (\<lambda>r. list_ex (\<lambda>v. \<not> isnull v) (snd r)) (rows_of df)"
proof -
  have "rows_of (dropna_all df)
      = sel (map (row_has_value df) [0..<length (index df)]) (rows_of df)"
    unfolding dropna_all_def using assms by (rule rows_of_select)
  also have "\<dots> = map (\<lambda>j. (index df ! j, map (\<lambda>ls. vals (snd ls) ! j) (columns df)))
                    (filter (row_has_value df) [0..<length (index df)])"
    unfolding rows_of_def by (rule sel_pred)
  also have "\<dots> = filter (\<lambda>r. list_ex (\<lambda>v. \<not> isnull v) (snd r)) (rows_of df)"
  proof -
    have "row_has_value df = (\<lambda>j. \<exists>ls\<in>set (columns df). \<not> isnull (vals (snd ls) ! j))"
      by (auto simp: fun_eq_iff row_has_value_def list_ex_iff)
    then show ?thesis
      by (simp add: rows_of_def filter_map comp_def list_ex_iff)
  qed
  finally show ?thesis .
qed

lemma df_ok_select_rows: "df_ok df \<Longrightarrow> df_ok (select_rows keep df)"
  by (auto simp: df_ok_def select_rows_def list_all_iff intro: length_sel)

lemma snd_extract_schema: "snd (extract_schema_from_df L df f s) = dropna_all df"
  by (simp add: extract_schema_from_df_def Let_def split: sum.splits)

lemma labels_dropna_all:
  "map (\<lambda>ls. (fst ls, dtype (snd ls))) (columns (dropna_all df))
     = map (\<lambda>ls. (fst ls, dtype (snd ls))) (columns df)"
  by (simp add: dropna_all_def select_rows_def comp_def)

text \<open>
  C10.  Schema extraction changes its argument: whatever the schema it returns, the
  caller's DataFrame afterwards consists of exactly the rows of the input that hold a
  value in some column, in their order and under their index labels, with the same
  column labels and dtypes.
\<close>

theorem C10_extract_schema_drops_empty_rows_in_place:
  assumes "df_ok df"
  shows "rows_of (snd (extract_schema_from_df L df file_name sheet_name))
           = filter (\<lambda>r. list_ex (\<lambda>v. \<not> isnull v) (snd r)) (rows_of df)
       \<and> map (\<lambda>ls. (fst ls, dtype (snd ls)))
              (columns (snd (extract_schema_from_df L df file_name sheet_name)))
           = map (\<lambda>ls. (fst ls, dtype (snd ls))) (columns df)
       \<and> df_ok (snd (extract_schema_from_df L df file_name sheet_name))"
proof -
  have "df_ok (dropna_all df)"
    unfolding dropna_all_def using assms by (rule df_ok_select_rows)
  with assms show ?thesis
    by (simp add: snd_extract_schema rows_of_dropna_all labels_dropna_all)
qed

theorem C10_witness:
  "df_ok blank_row_df
   \<and> rows_of (snd (extract_schema_from_df demo_lib blank_row_df ''f.csv'' None))
       = [(0, [PNum 1, PStr ''x'']), (2, [PNum 3, PNone])]
   \<and> rows_of blank_row_df
       = [(0, [PNum 1, PStr ''x'']), (1, [PNone, PNone]), (2, [PNum 3, PNone])]"
proof -
  have ok: "df_ok blank_row_df"
    by (simp add: df_ok_def blank_row_df_def)
  have rows: "rows_of blank_row_df
       = [(0, [PNum 1, PStr ''x'']), (1, [PNone, PNone]), (2, [PNum 3, PNone])]"
    by (simp add: rows_of_def blank_row_df_def upt_rec)
  from C10_extract_schema_drops_empty_rows_in_place [OF ok, of demo_lib "''f.csv''" None]
  show ?thesis using ok rows by (simp add: isnull_def)
qed

subsection \<open>The column loop of schema extraction\<close>

lemma py_eq_refl: "py_eq a a"
  by (simp add: py_eq_def split: option.splits)

lemma getitem_own_column:
  assumes "col \<in> fst ` set (columns df)" and "df_getitem df col = OneSeries s"
  shows "(col, s) \<in> set (columns df)"
proof -
  from assms(1) obtain s0 where m: "(col, s0) \<in> set (columns df)" by auto
  let ?f = "filter (\<lambda>ls. py_eq (fst ls) col) (columns df)"
  from assms(2) have "map snd ?f = [s]"
    by (simp add: df_getitem_def split: list.splits)
  then obtain x where x: "?f = [x]" "snd x = s" by auto
  from m have "(col, s0) \<in> set ?f" by (simp add: py_eq_refl)
  with x show ?thesis using m by (cases x) auto
qed

lemma set_dict_set:
  "(k, e) \<in> set (dict_set d k' v') \<Longrightarrow> (k, e) = (k', v') \<or> (k, e) \<in> set d"
  by (induction d) (auto split: if_splits)

lemma keys_dict_set: "fst ` set (dict_set d k v) = insert k (fst ` set d)"
  by (induction d) (force split: if_splits)+

lemma loop_entries:
  assumes "column_details_loop L df cols acc = Inr cd" and "(k, e) \<in> set cd"
    and "set cols \<subseteq> fst ` set (columns df)"
  shows "(k, e) \<in> set acc \<or>
         (\<exists>ls \<in> set (columns df). k = py_str L (fst ls) \<and> e = column_entry L (snd ls))"
  using assms
proof (induction cols arbitrary: acc)
  case Nil
  then show ?case by simp
next
  case (Cons col cols)
  from Cons.prems(1) obtain s where s: "df_getitem df col = OneSeries s"
    and rest: "column_details_loop L df cols
                 (dict_set acc (py_str L col) (column_entry L s)) = Inr cd"
    by (auto split: getitem.splits)
  from Cons.prems(3) s have own: "(col, s) \<in> set (columns df)"
    by (auto intro: getitem_own_column)
  from Cons.IH [OF rest Cons.prems(2)] Cons.prems(3)
  have "(k, e) \<in> set (dict_set acc (py_str L col) (column_entry L s)) \<or>
         (\<exists>ls \<in> set (columns df). k = py_str L (fst ls) \<and> e = column_entry L (snd ls))"
    by simp
  then show ?case
  proof
    assume "(k, e) \<in> set (dict_set acc (py_str L col) (column_entry L s))"
    then have "(k, e) = (py_str L col, column_entry L s) \<or> (k, e) \<in> set acc"
      by (rule set_dict_set)
    with own show ?thesis by force
  qed simp
qed

lemma loop_keys:
  assumes "column_details_loop L df cols acc = Inr cd"
  shows "py_str L ` set cols \<union> fst ` set acc \<subseteq> fst ` set cd"
  using assms
proof (induction cols arbitrary: acc)
  case Nil
  then show ?case by simp
next
  case (Cons col cols)
  from Cons.prems obtain s where s: "df_getitem df col = OneSeries s"
    and rest: "column_details_loop L df cols
                 (dict_set acc (py_str L col) (column_entry L s)) = Inr cd"
    by (auto split: getitem.splits)
  from Cons.IH [OF rest] show ?case
    by (auto simp: keys_dict_set)
qed

lemma columns_dropna_all:
  "(\<lambda>ls. (fst ls, dtype (snd ls))) ` set (columns (dropna_all df))
     = (\<lambda>ls. (fst ls, dtype (snd ls))) ` set (columns df)"
  by (simp add: dropna_all_def select_rows_def image_image)

text \<open>
  C3 as the spec states it fails: the schema records \<open>str(df[col].dtype)\<close>, the name
  pandas gives the column's dtype, and no step maps it to one of the five canonical tags
  or restricts it to five values.  For \<open>wide_ints_df\<close> extraction succeeds and records
  \<open>int64\<close> and \<open>uint64\<close>.
\<close>

theorem C3_counterexample:
  "\<not> dict_has (fst (extract_schema_from_df demo_lib wide_ints_df ''f.csv'' None)) ''error''
   \<and> inferred_types (fst (extract_schema_from_df demo_lib wide_ints_df ''f.csv'' None))
       = [(''qty'', PStr ''int64''), (''big'', PStr ''uint64'')]
   \<and> ''int64'' \<notin> set canonical_tags \<and> ''uint64'' \<notin> set canonical_tags"
  by code_simp

text \<open>
  C3, amended.  Every \<open>inferred_type\<close> a schema records is the dtype name of a column of
  the dataset, filed under that column's label; and when extraction succeeds on a
  dataset that is not empty, every column has its entry.
\<close>

theorem C3_inferred_type_is_runtime_dtype:
  "((k, t) \<in> set (inferred_types (fst (extract_schema_from_df L df file_name sheet_name)))
      \<longrightarrow> (\<exists>ls \<in> set (columns df). k = py_str L (fst ls) \<and> t = PStr (dtype (snd ls))))
   \<and> (\<not> dict_has (fst (extract_schema_from_df L df file_name sheet_name)) ''error''
        \<and> \<not> df_empty (dropna_all df)
      \<longrightarrow> (\<forall>ls \<in> set (columns df).
             py_str L (fst ls)
               \<in> fst ` set (inferred_types (fst (extract_schema_from_df L df file_name sheet_name)))))"
proof (intro conjI impI)
  let ?df = "dropna_all df"
  let ?S = "fst (extract_schema_from_df L df file_name sheet_name)"
  assume kt: "(k, t) \<in> set (inferred_types ?S)"
  show "\<exists>ls \<in> set (columns df). k = py_str L (fst ls) \<and> t = PStr (dtype (snd ls))"
  proof (cases "df_empty ?df")
    case True
    with kt show ?thesis
      by (simp add: extract_schema_from_df_def inferred_types_def Let_def)
  next
    case False
    show ?thesis
    proof (cases "column_details_loop L ?df (map fst (columns ?df)) []")
      case (Inl e)
      with False kt show ?thesis
        by (simp add: extract_schema_from_df_def inferred_types_def Let_def)
    next
      case (Inr cd)
      with False have S: "inferred_types ?S
          = map (\<lambda>ke. (fst ke, case snd ke of PDict d \<Rightarrow> dict_get d ''inferred_type'' PNone
                                        | _ \<Rightarrow> PNone)) cd"
        by (simp add: extract_schema_from_df_def inferred_types_def Let_def)
      from kt S obtain e where e: "(k, e) \<in> set cd"
        and t: "t = (case e of PDict d \<Rightarrow> dict_get d ''inferred_type'' PNone | _ \<Rightarrow> PNone)"
        by auto
      from loop_entries [OF Inr e] obtain ls where ls: "ls \<in> set (columns ?df)"
        "k = py_str L (fst ls)" "e = column_entry L (snd ls)" by auto
      from ls(3) t have "t = PStr (dtype (snd ls))"
        by (simp add: column_entry_def dict_get_def)
      moreover from ls(1)
      have "(fst ls, dtype (snd ls)) \<in> (\<lambda>ls. (fst ls, dtype (snd ls))) ` set (columns df)"
        using columns_dropna_all [of df] by blast
      then obtain ls' where "ls' \<in> set (columns df)" "fst ls' = fst ls"
        "dtype (snd ls') = dtype (snd ls)"
        by auto
      ultimately show ?thesis using ls(2) by metis
    qed
  qed
next
  let ?df = "dropna_all df"
  let ?S = "fst (extract_schema_from_df L df file_name sheet_name)"
  assume a: "\<not> dict_has ?S ''error'' \<and> \<not> df_empty ?df"
  then obtain cd where cd: "column_details_loop L ?df (map fst (columns ?df)) [] = Inr cd"
    by (cases "column_details_loop L ?df (map fst (columns ?df)) []")
       (auto simp: extract_schema_from_df_def Let_def dict_has_def)
  with a have S: "fst ` set (inferred_types ?S) = fst ` set cd"
    by (simp add: extract_schema_from_df_def inferred_types_def Let_def image_image)
  have "fst ` set (columns ?df) = fst ` set (columns df)"
    by (simp add: dropna_all_def select_rows_def image_image)
  with loop_keys [OF cd] S
  show "\<forall>ls \<in> set (columns df). py_str L (fst ls) \<in> fst ` set (inferred_types ?S)"
    by auto
qed

theorem C3_witness:
  "(''qty'', PStr ''int64'')
      \<in> set (inferred_types (fst (extract_schema_from_df demo_lib wide_ints_df ''f.csv'' None)))
   \<and> (\<exists>ls \<in> set (columns wide_ints_df).
         ''qty'' = py_str demo_lib (fst ls) \<and> PStr ''int64'' = PStr (dtype (snd ls)))
   \<and> \<not> dict_has (fst (extract_schema_from_df demo_lib wide_ints_df ''f.csv'' None)) ''error''
   \<and> \<not> df_empty (dropna_all wide_ints_df)
   \<and> ''big'' \<in> fst ` set (inferred_types
                           (fst (extract_schema_from_df demo_lib wide_ints_df ''f.csv'' None)))"
proof -
  let ?S = "fst (extract_schema_from_df demo_lib wide_ints_df ''f.csv'' None)"
  note T = C3_inferred_type_is_runtime_dtype
             [where k = "''qty''" and t = "PStr ''int64''" and L = demo_lib
                and df = wide_ints_df and file_name = "''f.csv''" and sheet_name = None]
  have h1: "(''qty'', PStr ''int64'') \<in> set (inferred_types ?S)"
    by code_simp
  have h2: "\<not> dict_has ?S ''error''"
    by code_simp
  have h3: "\<not> df_empty (dropna_all wide_ints_df)"
    by code_simp
  from T h1 have c1: "\<exists>ls \<in> set (columns wide_ints_df).
         ''qty'' = py_str demo_lib (fst ls) \<and> PStr ''int64'' = PStr (dtype (snd ls))"
    by blast
  from T h2 h3 have "\<forall>ls \<in> set (columns wide_ints_df).
         py_str demo_lib (fst ls) \<in> fst ` set (inferred_types ?S)"
    by blast
  then have c2: "''big'' \<in> fst ` set (inferred_types ?S)"
    by (simp add: wide_ints_df_def py_str_def)
  from h1 c1 h2 h3 c2 show ?thesis by blast
qed

text \<open>
  C5.  The spec lets a CHECK constraint of the supported form be evaluated exactly when
  every non-null value of the column is numeric-coercible.  The code decides it by
  \<open>numeric_col.isna().any() and not column_data.isna().all()\<close>, which is also true
  when the column merely holds a missing value next to numeric ones: for
  \<open>missing_price_df\<close> every non-null price is numeric and one of them (\<open>-5\<close>) breaks
  \<open>price > 0\<close>, yet the constraint is skipped and nothing is reported.  The two examples
  of the spec come out as it says: with \<open>abc\<close> the constraint is skipped, without it one
  violation of count 2 and severity medium is reported.
\<close>

theorem C5_check_skipped_when_a_value_is_missing:
  "run_data_quality_checks L missing_price_df price_schema (Some [price_check])
      = ([], [CheckConstraintSkipped ''price'' ''price > 0''])
   \<and> re_match ''price'' (strip (sqltext price_check)) = Some (''>'', 0)
   \<and> list_all (\<lambda>v. coerce_value L v \<noteq> None) (dropna [PNum 10, PNone, PNum (- 5)])
   \<and> filter (violates ''>'' 0) (map (coerce_value L) (dropna [PNum 10, PNone, PNum (- 5)]))
       = [Some (- 5)]
   \<and> run_data_quality_checks demo_lib abc_price_df price_schema (Some [price_check])
       = ([], [CheckConstraintSkipped ''price'' ''price > 0''])
   \<and> map (\<lambda>v. (map_of v ''check'', map_of v ''count'', map_of v ''severity''))
          (fst (run_data_quality_checks demo_lib numeric_price_df price_schema (Some [price_check])))
       = [(Some (PStr ''check_constraint_violation''), Some (PInt 2), Some (PStr ''medium''))]"
proof -
  have m: "re_match ''price'' (strip (sqltext price_check)) = Some (''>'', 0)"
    by code_simp
  have a: "run_data_quality_checks L missing_price_df price_schema (Some [price_check])
      = ([], [CheckConstraintSkipped ''price'' ''price > 0''])"
  proof -
    have s: "strip (sqltext price_check) = ''price > 0''"
      by code_simp
    have g: "df_getitem missing_price_df (PStr ''price'')
        = OneSeries \<lparr> dtype = ''float64'', vals = [PNum 10, PNone, PNum (- 5)] \<rparr>"
      by (simp add: df_getitem_def missing_price_df_def py_eq_def num_val_def)
    have h: "has_column missing_price_df (PStr ''price'')"
      by (simp add: has_column_def missing_price_df_def py_eq_def num_val_def)
    have n: "non_numeric_present L \<lparr> dtype = ''float64'', vals = [PNum 10, PNone, PNum (- 5)] \<rparr>"
      by (simp add: non_numeric_present_def to_numeric_coerce_def coerce_value_def isnull_def)
    have c: "contains_str ''price'' (sqltext price_check)"
      by (simp add: price_check_def)
    show ?thesis
      using m
      by (simp add: run_data_quality_checks_def quality_check_column_def price_schema_def
          g h n c s not_null_check_def pk_check_def check_constraints_check_def
          check_one_constraint_def Let_def)
  qed
  have b: "list_all (\<lambda>v. coerce_value L v \<noteq> None) (dropna [PNum 10, PNone, PNum (- 5)])"
    by (simp add: dropna_def isnull_def coerce_value_def)
  have c: "filter (violates ''>'' 0) (map (coerce_value L) (dropna [PNum 10, PNone, PNum (- 5)]))
       = [Some (- 5)]"
    by (simp add: dropna_def isnull_def coerce_value_def violates_def)
  have d: "run_data_quality_checks demo_lib abc_price_df price_schema (Some [price_check])
       = ([], [CheckConstraintSkipped ''price'' ''price > 0''])"
    by code_simp
  have e: "map (\<lambda>v. (map_of v ''check'', map_of v ''count'', map_of v ''severity''))
          (fst (run_data_quality_checks demo_lib numeric_price_df price_schema (Some [price_check])))
       = [(Some (PStr ''check_constraint_violation''), Some (PInt 2), Some (PStr ''medium''))]"
    by code_simp
  from a m b c d e show ?thesis by blast
qed

subsection \<open>Which columns the two checkers report\<close>

lemma two_hits:
  assumes "x \<in> set xs" "y \<in> set xs" "x \<noteq> y" "P (f x)" "P (f y)"
  shows "2 \<le> length (filter P (map f xs))"
  using assms
proof (induction xs)
  case Nil
  then show ?case by simp
next
  case (Cons z zs)
  have one: "\<And>w. w \<in> set zs \<Longrightarrow> P (f w) \<Longrightarrow> 1 \<le> length (filter P (map f zs))"
    by (metis One_nat_def Suc_leI filter_empty_conv image_eqI length_greater_0_conv list.set_map)
  from Cons show ?case
    by (cases "z = x"; cases "z = y") (auto dest: one)
qed

lemma getitem_subframe:
  assumes "2 \<le> length (filter (\<lambda>ls. py_eq (fst ls) l) (columns df))"
  shows "\<exists>ss. df_getitem df l = SubFrame ss"
proof -
  obtain u v ws where "filter (\<lambda>ls. py_eq (fst ls) l) (columns df) = u # v # ws"
    using assms by (cases "filter (\<lambda>ls. py_eq (fst ls) l) (columns df)" rule: list.exhaust)
      (auto simp: Suc_le_eq length_Suc_conv neq_Nil_conv)
  then show ?thesis by (simp add: df_getitem_def)
qed

lemma rename_duplicate:
  assumes r: "rename_columns (PDict m) df = Inr mapped"
    and ab: "a \<noteq> b"
    and ia: "PStr a \<in> fst ` set (columns df)" and ib: "PStr b \<in> fst ` set (columns df)"
    and ma: "map_of m a = Some (PStr t)" and mb: "map_of m b = Some (PStr t)"
  shows "\<exists>ss. df_getitem mapped (PStr t) = SubFrame ss"
proof -
  from r have cols: "columns mapped = map (\<lambda>ls. (new_label m (fst ls), snd ls)) (columns df)"
    by (auto simp: rename_columns_def split: if_splits)
  from ia obtain x where x: "x \<in> set (columns df)" "fst x = PStr a" by auto
  from ib obtain y where y: "y \<in> set (columns df)" "fst y = PStr b" by auto
  from x y ab have xy: "x \<noteq> y" by auto
  have px: "py_eq (fst (new_label m (fst x), snd x)) (PStr t)"
    using x ma by (simp add: new_label_def py_eq_refl)
  have py: "py_eq (fst (new_label m (fst y), snd y)) (PStr t)"
    using y mb by (simp add: new_label_def py_eq_refl)
  have "2 \<le> length (filter (\<lambda>ls. py_eq (fst ls) (PStr t)) (columns mapped))"
    unfolding cols using x(1) y(1) xy px py by (rule two_hits)
  then show ?thesis by (rule getitem_subframe)
qed

lemma type_check_column_violation:
  assumes "v \<in> set (fst (type_check_column L df item))"
  shows "map_of v ''column'' = Some (PStr (fst item)) \<and> (\<exists>s. df_getitem df (PStr (fst item)) = OneSeries s)"
  using assms
  by (auto simp: type_check_column_def Let_def split: if_splits getitem.splits option.splits)

lemma validate_data_types_violation:
  assumes "v \<in> set (fst (validate_data_types L df schema))"
  shows "\<exists>item \<in> set schema. v \<in> set (fst (type_check_column L df item))"
  using assms by (auto simp: validate_data_types_def Let_def)

lemma check_one_constraint_violation:
  assumes "v \<in> set (fst (check_one_constraint L df nm s c))"
  shows "map_of v ''column'' = Some (PStr nm) \<and> map_of v ''check'' = Some (PStr ''check_constraint_violation'')"
  using assms
  by (auto simp: check_one_constraint_def Let_def split: if_splits option.splits)

lemma check_constraints_check_violation:
  assumes "v \<in> set (fst (check_constraints_check L df nm s cs))"
  shows "map_of v ''column'' = Some (PStr nm) \<and> map_of v ''check'' = Some (PStr ''check_constraint_violation'')"
  using assms
  by (auto simp: check_constraints_check_def Let_def dest: check_one_constraint_violation)

lemma not_null_check_violation:
  assumes "v \<in> set (not_null_check df nm d s)"
  shows "map_of v ''column'' = Some (PStr nm) \<and> map_of v ''check'' = Some (PStr ''not_null_violation'')"
  using assms by (auto simp: not_null_check_def split: if_splits)

lemma pk_check_violation:
  assumes "v \<in> set (pk_check L nm d s)"
  shows "map_of v ''column'' = Some (PStr nm) \<and> map_of v ''check'' = Some (PStr ''primary_key_violation'')"
  using assms by (auto simp: pk_check_def Let_def split: if_splits)

lemma quality_check_column_violation:
  assumes "v \<in> set (fst (quality_check_column L df cs item))"
  shows "map_of v ''column'' = Some (PStr (fst item)) \<and> (\<exists>s. df_getitem df (PStr (fst item)) = OneSeries s)"
  using assms
  by (auto simp: quality_check_column_def Let_def split: if_splits getitem.splits
      dest: not_null_check_violation pk_check_violation check_constraints_check_violation)

lemma run_data_quality_checks_violation:
  assumes "v \<in> set (fst (run_data_quality_checks L df schema fetched))"
  shows "\<exists>item \<in> set schema. \<exists>cs. v \<in> set (fst (quality_check_column L df cs item))"
  using assms by (auto simp: run_data_quality_checks_def Let_def)

lemma has_column_subframe:
  assumes "df_getitem df l = SubFrame ss"
  shows "has_column df l"
proof -
  have "filter (\<lambda>ls. py_eq (fst ls) l) (columns df) \<noteq> []"
    using assms by (auto simp: df_getitem_def split: list.splits)
  then show ?thesis
    by (auto simp: has_column_def list_ex_iff filter_empty_conv)
qed

lemma type_skip_logged:
  assumes "df_getitem df (PStr t) = SubFrame ss" "(t, d) \<in> set schema"
  shows "DuplicateColumnTypeSkip t \<in> set (snd (validate_data_types L df schema))"
proof -
  have "type_check_column L df (t, d) = ([], [DuplicateColumnTypeSkip t])"
    using assms(1) has_column_subframe [OF assms(1)] by (simp add: type_check_column_def)
  with assms(2) show ?thesis
    by (force simp: validate_data_types_def Let_def)
qed

lemma quality_skip_logged:
  assumes "df_getitem df (PStr t) = SubFrame ss" "(t, d) \<in> set schema"
  shows "DuplicateColumnQualitySkip t \<in> set (snd (run_data_quality_checks L df schema fetched))"
proof -
  let ?cs = "case fetched of None \<Rightarrow> [] | Some cs \<Rightarrow> cs"
  have "quality_check_column L df ?cs (t, d) = ([], [DuplicateColumnQualitySkip t])"
    using assms(1) has_column_subframe [OF assms(1)] by (simp add: quality_check_column_def)
  then have "DuplicateColumnQualitySkip t \<in> set (snd (quality_check_column L df ?cs (t, d)))"
    by simp
  with assms(2) show ?thesis
    unfolding run_data_quality_checks_def Let_def by (simp del: split_paired_Ex) blast
qed

text \<open>
  C9.  When the naming map sends two distinct file columns to one target name, the
  renamed frame carries that label twice, and neither checker emits a violation for it;
  when the name is a column of the target table, each checker logs its warning for it
  instead.
\<close>

theorem C9_duplicate_target_is_skipped:
  assumes r: "rename_columns (PDict m) df = Inr mapped"
    and ab: "a \<noteq> b"
    and ia: "PStr a \<in> fst ` set (columns df)" and ib: "PStr b \<in> fst ` set (columns df)"
    and ma: "map_of m a = Some (PStr t)" and mb: "map_of m b = Some (PStr t)"
  shows "(\<forall>v \<in> set (fst (validate_data_types L mapped schema)). map_of v ''column'' \<noteq> Some (PStr t))
    \<and> (\<forall>v \<in> set (fst (run_data_quality_checks L mapped schema fetched)). map_of v ''column'' \<noteq> Some (PStr t))
    \<and> (t \<in> fst ` set schema \<longrightarrow>
         DuplicateColumnTypeSkip t \<in> set (snd (validate_data_types L mapped schema))
       \<and> DuplicateColumnQualitySkip t \<in> set (snd (run_data_quality_checks L mapped schema fetched)))"
proof -
  from rename_duplicate [OF r ab ia ib ma mb]
  obtain ss where dup: "df_getitem mapped (PStr t) = SubFrame ss" by blast
  have 1: "\<forall>v \<in> set (fst (validate_data_types L mapped schema)). map_of v ''column'' \<noteq> Some (PStr t)"
  proof
    fix v assume "v \<in> set (fst (validate_data_types L mapped schema))"
    then obtain item where "v \<in> set (fst (type_check_column L mapped item))"
      using validate_data_types_violation by blast
    from type_check_column_violation [OF this] dup
    show "map_of v ''column'' \<noteq> Some (PStr t)" by auto
  qed
  have 2: "\<forall>v \<in> set (fst (run_data_quality_checks L mapped schema fetched)). map_of v ''column'' \<noteq> Some (PStr t)"
  proof
    fix v assume "v \<in> set (fst (run_data_quality_checks L mapped schema fetched))"
    then obtain item cs where "v \<in> set (fst (quality_check_column L mapped cs item))"
      using run_data_quality_checks_violation by blast
    from quality_check_column_violation [OF this] dup
    show "map_of v ''column'' \<noteq> Some (PStr t)" by auto
  qed
  have 3: "t \<in> fst ` set schema \<longrightarrow>
         DuplicateColumnTypeSkip t \<in> set (snd (validate_data_types L mapped schema))
       \<and> DuplicateColumnQualitySkip t \<in> set (snd (run_data_quality_checks L mapped schema fetched))"
    using type_skip_logged [OF dup] quality_skip_logged [OF dup] by auto
  from 1 2 3 show ?thesis by blast
qed

theorem C9_witness:
  "rename_columns (PDict dup_map) dup_df
      = Inr (dup_df\<lparr>columns := map (\<lambda>ls. (PStr ''total'', snd ls)) (columns dup_df)\<rparr>)
   \<and> list_all (\<lambda>v. map_of v ''column'' \<noteq> Some (PStr ''total''))
        (fst (validate_data_types demo_lib
               (dup_df\<lparr>columns := map (\<lambda>ls. (PStr ''total'', snd ls)) (columns dup_df)\<rparr>)
               total_schema))
   \<and> list_all (\<lambda>v. map_of v ''column'' \<noteq> Some (PStr ''total''))
        (fst (run_data_quality_checks demo_lib
               (dup_df\<lparr>columns := map (\<lambda>ls. (PStr ''total'', snd ls)) (columns dup_df)\<rparr>)
               total_schema None))
   \<and> DuplicateColumnTypeSkip ''total''
        \<in> set (snd (validate_data_types demo_lib
               (dup_df\<lparr>columns := map (\<lambda>ls. (PStr ''total'', snd ls)) (columns dup_df)\<rparr>)
               total_schema))
   \<and> DuplicateColumnQualitySkip ''total''
        \<in> set (snd (run_data_quality_checks demo_lib
               (dup_df\<lparr>columns := map (\<lambda>ls. (PStr ''total'', snd ls)) (columns dup_df)\<rparr>)
               total_schema None))"
proof -
  let ?mapped = "dup_df\<lparr>columns := map (\<lambda>ls. (PStr ''total'', snd ls)) (columns dup_df)\<rparr>"
  have r: "rename_columns (PDict dup_map) dup_df = Inr ?mapped"
    by (simp add: rename_columns_def dup_map_def dup_df_def new_label_def)
  have ab: "''qty'' \<noteq> ''amount''" by simp
  have ia: "PStr ''qty'' \<in> fst ` set (columns dup_df)" by (simp add: dup_df_def)
  have ib: "PStr ''amount'' \<in> fst ` set (columns dup_df)" by (simp add: dup_df_def)
  have ma: "map_of dup_map ''qty'' = Some (PStr ''total'')" by (simp add: dup_map_def)
  have mb: "map_of dup_map ''amount'' = Some (PStr ''total'')" by (simp add: dup_map_def)
  have ts: "''total'' \<in> fst ` set total_schema" by (simp add: total_schema_def)
  from C9_duplicate_target_is_skipped [OF r ab ia ib ma mb, of demo_lib total_schema None] r ts
  show ?thesis by (simp add: list_all_iff)
qed

subsection \<open>The keys of a report\<close>

lemma dict_has_keys: "dict_has d k \<longleftrightarrow> k \<in> fst ` set d"
  by (simp add: dict_has_def map_of_eq_None_iff)

lemma dict_has_set: "dict_has (dict_set d k v) k' \<longleftrightarrow> k' = k \<or> dict_has d k'"
  by (simp add: dict_has_keys keys_dict_set)

lemma dict_has_update: "dict_has (dict_update d e) k \<longleftrightarrow> dict_has d k \<or> dict_has e k"
proof -
  have "\<And>d. dict_has (fold (\<lambda>kv acc. dict_set acc (fst kv) (snd kv)) e d) k
          \<longleftrightarrow> dict_has d k \<or> dict_has e k"
  proof (induction e)
    case Nil
    show ?case by (simp add: dict_has_def)
  next
    case (Cons kv e)
    show ?case
      by (simp add: Cons.IH dict_has_set) (auto simp: dict_has_def)
  qed
  then show ?thesis by (simp add: dict_update_def)
qed

lemma dict_has_pop: "dict_has (dict_pop d k) k' \<longleftrightarrow> k' \<noteq> k \<and> dict_has d k'"
  by (force simp: dict_has_keys dict_pop_def)

lemma py_update_keeps:
  assumes "py_update L d x = Inr d'" and "dict_has d k"
  shows "dict_has d' k"
proof (cases x)
  case (PDict e)
  with assms show ?thesis by (auto simp: py_update_def dict_has_update)
next
  case (PList xs)
  with assms show ?thesis
    by (cases "map_exn (update_item L) xs") (auto simp: py_update_def dict_has_update)
next
  case (PStr s)
  with assms show ?thesis by (auto simp: py_update_def split: if_splits)
qed (use assms in \<open>simp_all add: py_update_def\<close>)

lemma final_analysis_keeps:
  assumes "final_analysis E L r = Inr r'" and "dict_has r k"
  shows "dict_has r' k"
proof (cases "llm_final_analysis E")
  case None
  with assms show ?thesis by (simp add: final_analysis_def)
next
  case (Some response)
  show ?thesis
  proof (cases "json_loads L response")
    case None
    with Some assms have "r' = dict_set r ''validation_summary''
                      (PDict [(''status'', PStr ''Error''),
                              (''details'', PStr ''LLM analysis parsing failed.'')])"
      by (simp add: final_analysis_def)
    with assms(2) show ?thesis by (simp add: dict_has_set)
  next
    case (Some j)
    with \<open>llm_final_analysis E = Some response\<close> assms have "py_update L r j = Inr r'"
      by (simp add: final_analysis_def)
    then show ?thesis using assms(2) by (rule py_update_keeps)
  qed
qed

lemma base_report_keys: "report_keys (base_report E file_path sheet_name file_schema tv dq rules)"
  by (simp add: report_keys_def base_report_def dict_has_def)

lemma error_report_keys: "report_keys (error_report E file_path sheet_name e)"
  by (simp add: report_keys_def error_report_def dict_has_def)

lemma report_steps_keys:
  assumes "report_steps E L file_path sheet_name file_schema violations = Inr r"
  shows "report_keys r"
proof (cases "create_violation_summary (fst violations) (snd violations)")
  case (Inl e)
  with assms show ?thesis by (simp add: report_steps_def Let_def)
next
  case (Inr summary)
  with assms have "final_analysis E L
            (base_report E file_path sheet_name file_schema (fst violations) (snd violations)
               (dynamic_rules E L)) = Inr r"
    by (simp add: report_steps_def Let_def)
  from final_analysis_keeps [OF this] base_report_keys show ?thesis
    by (simp add: report_keys_def)
qed


lemma try_body_keys:
  assumes "fst (try_body E L arg file_path sheet_name t) = Inr r"
  shows "report_keys r"
proof (cases "check_extracted (fst (extract_step L arg file_path sheet_name)) sheet_name")
  case (Inl e)
  with assms show ?thesis by (simp add: try_body_def Let_def)
next
  case c1: (Inr u)
  show ?thesis
  proof (cases "load_db_schema E t")
    case (Inl e)
    with c1 assms show ?thesis by (simp add: try_body_def Let_def)
  next
    case c2: (Inr schema)
    show ?thesis
    proof (cases "schema_analysis E L")
      case (Inl e)
      with c1 c2 assms show ?thesis by (simp add: try_body_def Let_def)
    next
      case c3: (Inr sa)
      show ?thesis
      proof (cases "snd (extract_step L arg file_path sheet_name)")
        case ASheets
        with c1 c2 c3 assms show ?thesis by (simp add: try_body_def Let_def)
      next
        case (AFrame df)
        show ?thesis
        proof (cases "deep_validation E L df schema t sa")
          case (Inl e)
          with c1 c2 c3 AFrame assms show ?thesis by (simp add: try_body_def Let_def)
        next
          case (Inr violations)
          with c1 c2 c3 AFrame assms
          have "report_steps E L file_path sheet_name
                  (fst (extract_step L arg file_path sheet_name)) violations = Inr r"
            by (simp add: try_body_def Let_def)
          then show ?thesis by (rule report_steps_keys)
        qed
      qed
    qed
  qed
qed

lemma internal_keys:
  "\<exists>r sa. run_validation_for_sheet_internal E L arg file_path sheet_name (Some t) = Inr (r, sa)
          \<and> report_keys r"
proof (cases "fst (try_body E L arg file_path sheet_name t)")
  case (Inl e)
  then show ?thesis
    using error_report_keys by (simp add: run_validation_for_sheet_internal_def Let_def)
next
  case (Inr r)
  then show ?thesis
    using try_body_keys [OF Inr] by (simp add: run_validation_for_sheet_internal_def Let_def)
qed

lemma assemble_keeps:
  assumes "dict_has r k"
  shows "dict_has (assemble_final_report r sa) k"
  using assms
  by (simp add: assemble_final_report_def Let_def dict_has_update dict_has_set dict_has_pop)
     (auto simp: dict_has_def)

text \<open>
  C2 as the spec states it fails: the pipeline does return a report object on every
  path, but when the file type is unsupported (or the engine cannot be created, the
  file cannot be read, or no table is named) that object is only
  \<open>{"error": message}\<close>, without \<open>file_name\<close>, \<open>sheet_name\<close> and \<open>validated_at\<close>.
\<close>

theorem C2_counterexample:
  "run_validation_for_single_sheet orders_env demo_lib ''notes.txt'' ''Sheet1'' (Some ''orders'')
     = [(''error'', PStr (''A critical error occurred: Unsupported file type: notes.txt. ''
                          @ ''Only .csv, .xls, and .xlsx are supported.''))]
   \<and> \<not> dict_has (run_validation_for_single_sheet orders_env demo_lib ''notes.txt'' ''Sheet1''
                   (Some ''orders'')) ''file_name''
   \<and> \<not> dict_has (run_validation_for_single_sheet orders_env demo_lib ''notes.txt'' ''Sheet1''
                   (Some ''orders'')) ''sheet_name''
   \<and> \<not> dict_has (run_validation_for_single_sheet orders_env demo_lib ''notes.txt'' ''Sheet1''
                   (Some ''orders'')) ''validated_at''"
  by code_simp

text \<open>
  C2, amended.  The pipeline returns a report object on every path (the model's function
  is total: each exception the code can meet is caught and turned into a report).  When
  the engine was created, the sheet was read and a table was named, the report - success
  or error variant - has the fields \<open>file_name\<close>, \<open>sheet_name\<close> and \<open>validated_at\<close>;
  otherwise it is the one-field object \<open>{"error": message}\<close>.
\<close>

theorem C2_report_fields:
  "(engine_available E
      \<and> read_sheet E file_path (if sheet_name \<noteq> ''csv_data'' then Some sheet_name else None) = Inr arg
      \<and> table_name = Some t
     \<longrightarrow> dict_has (run_validation_for_single_sheet E L file_path sheet_name table_name) ''file_name''
       \<and> dict_has (run_validation_for_single_sheet E L file_path sheet_name table_name) ''sheet_name''
       \<and> dict_has (run_validation_for_single_sheet E L file_path sheet_name table_name) ''validated_at'')
   \<and> (\<not> engine_available E
       \<or> (\<exists>e. read_sheet E file_path (if sheet_name \<noteq> ''csv_data'' then Some sheet_name else None) = Inl e)
       \<or> table_name = None
     \<longrightarrow> (\<exists>msg. run_validation_for_single_sheet E L file_path sheet_name table_name
                 = [(''error'', PStr msg)]))"
proof (intro conjI impI)
  let ?rs = "if sheet_name \<noteq> ''csv_data'' then Some sheet_name else None"
  let ?R = "run_validation_for_single_sheet E L file_path sheet_name table_name"
  assume a: "engine_available E \<and> read_sheet E file_path ?rs = Inr arg \<and> table_name = Some t"
  obtain r sa where i: "run_validation_for_sheet_internal E L arg file_path ?rs (Some t) = Inr (r, sa)"
    and k: "report_keys r"
    using internal_keys by blast
  from a i have R: "?R = assemble_final_report r sa"
    by (simp add: run_validation_for_single_sheet_def Let_def)
  from k show "dict_has ?R ''file_name''" "dict_has ?R ''sheet_name''" "dict_has ?R ''validated_at''"
    unfolding R by (simp_all add: report_keys_def assemble_keeps)
next
  let ?rs = "if sheet_name \<noteq> ''csv_data'' then Some sheet_name else None"
  let ?R = "run_validation_for_single_sheet E L file_path sheet_name table_name"
  assume b: "\<not> engine_available E \<or> (\<exists>e. read_sheet E file_path ?rs = Inl e) \<or> table_name = None"
  show "\<exists>msg. ?R = [(''error'', PStr msg)]"
  proof (cases "engine_available E")
    case False
    then show ?thesis by (simp add: run_validation_for_single_sheet_def)
  next
    case True
    show ?thesis
    proof (cases "read_sheet E file_path ?rs")
      case (Inl e)
      with True show ?thesis
        by (simp add: run_validation_for_single_sheet_def Let_def critical_error_def)
    next
      case (Inr arg)
      with True b have "table_name = None" by simp
      with True Inr show ?thesis
        by (simp add: run_validation_for_single_sheet_def Let_def critical_error_def
            run_validation_for_sheet_internal_def)
    qed
  qed
qed

theorem C2_witness:
  "engine_available orders_env
   \<and> read_sheet orders_env ''orders.csv'' None = Inr (AFrame orders_df)
   \<and> dict_has (run_validation_for_single_sheet orders_env demo_lib ''orders.csv'' ''csv_data''
                 (Some ''orders'')) ''file_name''
   \<and> dict_has (run_validation_for_single_sheet orders_env demo_lib ''orders.csv'' ''csv_data''
                 (Some ''orders'')) ''sheet_name''
   \<and> dict_has (run_validation_for_single_sheet orders_env demo_lib ''orders.csv'' ''csv_data''
                 (Some ''orders'')) ''validated_at''
   \<and> (\<exists>msg. run_validation_for_single_sheet orders_env demo_lib ''orders.csv'' ''csv_data'' None
               = [(''error'', PStr msg)])"
proof -
  have h1: "engine_available orders_env" by (simp add: orders_env_def)
  have h2: "read_sheet orders_env ''orders.csv'' None = Inr (AFrame orders_df)"
    by (simp add: read_sheet_def orders_env_def ends_with_def)
  note T1 = C2_report_fields [where E = orders_env and L = demo_lib and file_path = "''orders.csv''"
              and sheet_name = "''csv_data''" and table_name = "Some ''orders''"
              and t = "''orders''" and arg = "AFrame orders_df"]
  note T2 = C2_report_fields [where E = orders_env and L = demo_lib and file_path = "''orders.csv''"
              and sheet_name = "''csv_data''" and table_name = None]
  from T1 h1 h2
  have c1: "dict_has (run_validation_for_single_sheet orders_env demo_lib ''orders.csv'' ''csv_data''
                 (Some ''orders'')) ''file_name''
   \<and> dict_has (run_validation_for_single_sheet orders_env demo_lib ''orders.csv'' ''csv_data''
                 (Some ''orders'')) ''sheet_name''
   \<and> dict_has (run_validation_for_single_sheet orders_env demo_lib ''orders.csv'' ''csv_data''
                 (Some ''orders'')) ''validated_at''"
    by simp
  from T2
  have c2: "\<exists>msg. run_validation_for_single_sheet orders_env demo_lib ''orders.csv'' ''csv_data'' None
               = [(''error'', PStr msg)]"
    by simp
  from h1 h2 c1 c2 show ?thesis by (intro conjI) simp_all
qed

subsection \<open>The report after a failed narrative call\<close>

lemma try_body_reaches:
  assumes ex: "check_extracted (fst (extract_schema_from_df L df0 file_path rs)) rs = Inr ()"
    and db: "load_db_schema E t = Inr schema"
    and sa: "schema_analysis E L = Inr sa"
    and dv: "deep_validation E L (dropna_all df0) schema t sa = Inr (types, dq)"
    and vs: "create_violation_summary types dq = Inr summary"
  shows "try_body E L (AFrame df0) file_path rs t
       = (final_analysis E L
            (base_report E file_path rs (fst (extract_schema_from_df L df0 file_path rs))
               types dq (dynamic_rules E L)), sa)"
  using assms
  by (simp add: try_body_def extract_step_def Let_def snd_extract_schema report_steps_def)

lemma assemble_base_parse_failed:
  "map_of (assemble_final_report
       (dict_set (base_report E file_path rs file_schema types dq rules) ''validation_summary'' vsum) sa) k
   = (if k = ''validation_summary'' then Some vsum
      else if k = ''schema_mismatch'' then Some sa
      else map_of (base_report E file_path rs file_schema types dq rules) k)"
  by (simp add: assemble_final_report_def base_report_def dict_has_def dict_get_def dict_pop_def
      dict_update_def Let_def)

lemma assemble_error:
  "map_of (assemble_final_report (error_report E file_path rs e) sa) k
   = (if k = ''schema_mismatch'' then Some sa else map_of (error_report E file_path rs e) k)"
  by (simp add: assemble_final_report_def error_report_def dict_has_def dict_get_def dict_pop_def
      dict_update_def Let_def)

text \<open>
  C4 as the spec states it fails for a transport failure: when the narrative call gives
  no answer the code raises \<open>ValueError("Failed to get final analysis from LLM.")\<close>, and
  the error report that replaces the base report has no \<open>data_type_mismatch\<close> and no
  \<open>data_quality_issues\<close>, although deep validation had found one violation of each
  kind.
\<close>

theorem C4_counterexample:
  "map_of (run_validation_for_single_sheet narrative_down_env demo_lib ''items.csv'' ''csv_data''
             (Some ''items'')) ''validation_summary''
     = Some (PDict [(''status'', PStr ''Error''),
                    (''details'', PStr ''Failed to get final analysis from LLM.'')])
   \<and> \<not> dict_has (run_validation_for_single_sheet narrative_down_env demo_lib ''items.csv''
                   ''csv_data'' (Some ''items'')) ''data_type_mismatch''
   \<and> \<not> dict_has (run_validation_for_single_sheet narrative_down_env demo_lib ''items.csv''
                   ''csv_data'' (Some ''items'')) ''data_quality_issues''
   \<and> (case deep_validation narrative_down_env demo_lib (dropna_all mixed_df) required_int_schema
               ''items'' (PDict []) of
         Inl e \<Rightarrow> False
       | Inr v \<Rightarrow> length (fst v) = 1 \<and> length (snd v) = 1)"
  by code_simp

text \<open>
  C4, amended.  Once deep validation and the summary have succeeded: if the narrative
  answer is not parseable, the report has \<open>validation_summary.status = "Error"\<close> and keeps
  \<open>data_type_mismatch\<close>, \<open>data_quality_issues\<close> and \<open>schema_mismatch\<close> as computed; if the
  narrative call gives no answer, the report is the error report, again with status
  \<open>Error\<close> and with \<open>schema_mismatch\<close>, but without the two violation sections.
\<close>

theorem C4_narrative_failure_report:
  assumes eng: "engine_available E"
    and rd: "read_sheet E file_path (if sheet_name \<noteq> ''csv_data'' then Some sheet_name else None)
               = Inr (AFrame df0)"
    and ex: "check_extracted
               (fst (extract_schema_from_df L df0 file_path
                       (if sheet_name \<noteq> ''csv_data'' then Some sheet_name else None)))
               (if sheet_name \<noteq> ''csv_data'' then Some sheet_name else None) = Inr ()"
    and db: "load_db_schema E t = Inr schema"
    and sa: "schema_analysis E L = Inr sa"
    and dv: "deep_validation E L (dropna_all df0) schema t sa = Inr (types, dq)"
    and vs: "create_violation_summary types dq = Inr summary"
  shows "(llm_final_analysis E = Some response \<and> json_loads L response = None \<longrightarrow>
            map_of (run_validation_for_single_sheet E L file_path sheet_name (Some t))
                ''validation_summary''
              = Some (PDict [(''status'', PStr ''Error''),
                             (''details'', PStr ''LLM analysis parsing failed.'')])
          \<and> map_of (run_validation_for_single_sheet E L file_path sheet_name (Some t))
                ''data_type_mismatch'' = Some (PList (map PDict types))
          \<and> map_of (run_validation_for_single_sheet E L file_path sheet_name (Some t))
                ''data_quality_issues'' = Some (PList (map PDict dq))
          \<and> map_of (run_validation_for_single_sheet E L file_path sheet_name (Some t))
                ''schema_mismatch'' = Some sa)
       \<and> (llm_final_analysis E = None \<longrightarrow>
            map_of (run_validation_for_single_sheet E L file_path sheet_name (Some t))
                ''validation_summary''
              = Some (PDict [(''status'', PStr ''Error''),
                             (''details'', PStr ''Failed to get final analysis from LLM.'')])
          \<and> map_of (run_validation_for_single_sheet E L file_path sheet_name (Some t))
                ''schema_mismatch'' = Some sa
          \<and> \<not> dict_has (run_validation_for_single_sheet E L file_path sheet_name (Some t))
                ''data_type_mismatch''
          \<and> \<not> dict_has (run_validation_for_single_sheet E L file_path sheet_name (Some t))
                ''data_quality_issues'')"
proof -
  let ?rs = "if sheet_name \<noteq> ''csv_data'' then Some sheet_name else None"
  let ?schema = "fst (extract_schema_from_df L df0 file_path ?rs)"
  let ?base = "base_report E file_path ?rs ?schema types dq (dynamic_rules E L)"
  let ?R = "run_validation_for_single_sheet E L file_path sheet_name (Some t)"
  have tb: "try_body E L (AFrame df0) file_path ?rs t = (final_analysis E L ?base, sa)"
    using ex db sa dv vs by (rule try_body_reaches)
  have a: "llm_final_analysis E = Some response \<and> json_loads L response = None \<longrightarrow>
            map_of ?R ''validation_summary''
              = Some (PDict [(''status'', PStr ''Error''),
                             (''details'', PStr ''LLM analysis parsing failed.'')])
          \<and> map_of ?R ''data_type_mismatch'' = Some (PList (map PDict types))
          \<and> map_of ?R ''data_quality_issues'' = Some (PList (map PDict dq))
          \<and> map_of ?R ''schema_mismatch'' = Some sa"
  proof
    assume n: "llm_final_analysis E = Some response \<and> json_loads L response = None"
    then have fa: "final_analysis E L ?base
        = Inr (dict_set ?base ''validation_summary''
                 (PDict [(''status'', PStr ''Error''),
                         (''details'', PStr ''LLM analysis parsing failed.'')]))"
      by (simp add: final_analysis_def)
    have R: "?R = assemble_final_report
                    (dict_set ?base ''validation_summary''
                       (PDict [(''status'', PStr ''Error''),
                               (''details'', PStr ''LLM analysis parsing failed.'')])) sa"
      using eng rd
      by (simp add: run_validation_for_single_sheet_def run_validation_for_sheet_internal_def
          tb fa Let_def)
    show "map_of ?R ''validation_summary''
              = Some (PDict [(''status'', PStr ''Error''),
                             (''details'', PStr ''LLM analysis parsing failed.'')])
          \<and> map_of ?R ''data_type_mismatch'' = Some (PList (map PDict types))
          \<and> map_of ?R ''data_quality_issues'' = Some (PList (map PDict dq))
          \<and> map_of ?R ''schema_mismatch'' = Some sa"
      unfolding R assemble_base_parse_failed by (simp add: base_report_def)
  qed
  have b: "llm_final_analysis E = None \<longrightarrow>
            map_of ?R ''validation_summary''
              = Some (PDict [(''status'', PStr ''Error''),
                             (''details'', PStr ''Failed to get final analysis from LLM.'')])
          \<and> map_of ?R ''schema_mismatch'' = Some sa
          \<and> \<not> dict_has ?R ''data_type_mismatch''
          \<and> \<not> dict_has ?R ''data_quality_issues''"
  proof
    assume n: "llm_final_analysis E = None"
    then have fa: "final_analysis E L ?base
        = Inl (ValueError ''Failed to get final analysis from LLM.'')"
      by (simp add: final_analysis_def)
    have R: "?R = assemble_final_report
                    (error_report E file_path ?rs
                       (ValueError ''Failed to get final analysis from LLM.'')) sa"
      using eng rd
      by (simp add: run_validation_for_single_sheet_def run_validation_for_sheet_internal_def
          tb fa Let_def)
    show "map_of ?R ''validation_summary''
              = Some (PDict [(''status'', PStr ''Error''),
                             (''details'', PStr ''Failed to get final analysis from LLM.'')])
          \<and> map_of ?R ''schema_mismatch'' = Some sa
          \<and> \<not> dict_has ?R ''data_type_mismatch''
          \<and> \<not> dict_has ?R ''data_quality_issues''"
      unfolding R dict_has_def assemble_error by (simp add: error_report_def)
  qed
  from a b show ?thesis by (rule conjI)
qed

theorem C4_witness:
  "engine_available narrative_garbled_env
   \<and> llm_final_analysis narrative_garbled_env = Some ''Sorry, I cannot help.''
   \<and> json_loads demo_lib ''Sorry, I cannot help.'' = None
   \<and> map_of (run_validation_for_single_sheet narrative_garbled_env demo_lib ''items.csv''
               ''csv_data'' (Some ''items'')) ''validation_summary''
       = Some (PDict [(''status'', PStr ''Error''),
                      (''details'', PStr ''LLM analysis parsing failed.'')])
   \<and> map_of (run_validation_for_single_sheet narrative_garbled_env demo_lib ''items.csv''
               ''csv_data'' (Some ''items'')) ''data_quality_issues''
       = Some (PList (map PDict
           (fst (run_data_quality_checks demo_lib (dropna_all mixed_df) required_int_schema
                   (Some [])))))
   \<and> llm_final_analysis narrative_down_env = None
   \<and> \<not> dict_has (run_validation_for_single_sheet narrative_down_env demo_lib ''items.csv''
                   ''csv_data'' (Some ''items'')) ''data_quality_issues''"
proof -
  let ?types = "fst (validate_data_types demo_lib (dropna_all mixed_df) required_int_schema)"
  let ?dq = "fst (run_data_quality_checks demo_lib (dropna_all mixed_df) required_int_schema
                    (Some []))"
  have g1: "engine_available narrative_garbled_env"
    by (simp add: narrative_garbled_env_def narrative_down_env_def)
  have d1: "engine_available narrative_down_env"
    by (simp add: narrative_down_env_def)
  have g2: "read_sheet narrative_garbled_env ''items.csv''
              (if ''csv_data'' \<noteq> ''csv_data'' then Some ''csv_data'' else None)
            = Inr (AFrame mixed_df)"
    by (simp add: read_sheet_def narrative_garbled_env_def narrative_down_env_def ends_with_def)
  have d2: "read_sheet narrative_down_env ''items.csv''
              (if ''csv_data'' \<noteq> ''csv_data'' then Some ''csv_data'' else None)
            = Inr (AFrame mixed_df)"
    by (simp add: read_sheet_def narrative_down_env_def ends_with_def)
  have x: "check_extracted
             (fst (extract_schema_from_df demo_lib mixed_df ''items.csv''
                     (if ''csv_data'' \<noteq> ''csv_data'' then Some ''csv_data'' else None)))
             (if ''csv_data'' \<noteq> ''csv_data'' then Some ''csv_data'' else None) = Inr ()"
    by code_simp
  have g3: "load_db_schema narrative_garbled_env ''items'' = Inr required_int_schema"
    by (simp add: load_db_schema_def narrative_garbled_env_def narrative_down_env_def)
  have d3: "load_db_schema narrative_down_env ''items'' = Inr required_int_schema"
    by (simp add: load_db_schema_def narrative_down_env_def)
  have g4: "schema_analysis narrative_garbled_env demo_lib = Inr (PDict [])"
    by (simp add: schema_analysis_def narrative_garbled_env_def narrative_down_env_def
        demo_lib_def)
  have d4: "schema_analysis narrative_down_env demo_lib = Inr (PDict [])"
    by (simp add: schema_analysis_def narrative_down_env_def demo_lib_def)
  have g5: "deep_validation narrative_garbled_env demo_lib (dropna_all mixed_df)
              required_int_schema ''items'' (PDict []) = Inr (?types, ?dq)"
    by code_simp
  have d5: "deep_validation narrative_down_env demo_lib (dropna_all mixed_df)
              required_int_schema ''items'' (PDict []) = Inr (?types, ?dq)"
    by code_simp
  have "case create_violation_summary ?types ?dq of Inl e \<Rightarrow> False | Inr v \<Rightarrow> True"
    by code_simp
  then obtain summary where v: "create_violation_summary ?types ?dq = Inr summary"
    by (cases "create_violation_summary ?types ?dq") auto
  have g6: "llm_final_analysis narrative_garbled_env = Some ''Sorry, I cannot help.''"
    by (simp add: narrative_garbled_env_def)
  have g7: "json_loads demo_lib ''Sorry, I cannot help.'' = None"
    by (simp add: demo_lib_def)
  have d6: "llm_final_analysis narrative_down_env = None"
    by (simp add: narrative_down_env_def)
  note G = C4_narrative_failure_report [OF g1 g2 x g3 g4 g5 v, of "''Sorry, I cannot help.''"]
  note D = C4_narrative_failure_report [OF d1 d2 x d3 d4 d5 v, of "[]"]
  from G g6 g7 have cg:
    "map_of (run_validation_for_single_sheet narrative_garbled_env demo_lib ''items.csv''
               ''csv_data'' (Some ''items'')) ''validation_summary''
       = Some (PDict [(''status'', PStr ''Error''),
                      (''details'', PStr ''LLM analysis parsing failed.'')])
     \<and> map_of (run_validation_for_single_sheet narrative_garbled_env demo_lib ''items.csv''
               ''csv_data'' (Some ''items'')) ''data_quality_issues'' = Some (PList (map PDict ?dq))"
    by blast
  from D d6 have cd:
    "\<not> dict_has (run_validation_for_single_sheet narrative_down_env demo_lib ''items.csv''
                   ''csv_data'' (Some ''items'')) ''data_quality_issues''"
    by blast
  from g1 g6 g7 cg d6 cd show ?thesis by (intro conjI) simp_all
qed

subsection \<open>Data-quality checks of one column\<close>









lemma filter_concat_key:
  assumes "distinct (map fst xs)" and "(k, d) \<in> set xs"
    and "\<And>item v. item \<in> set xs \<Longrightarrow> v \<in> set (f item) \<Longrightarrow> P v \<Longrightarrow> fst item = k"
  shows "filter P (concat (map f xs)) = filter P (f (k, d))"
  using assms
proof (induction xs)
  case Nil
  then show ?case by simp
next
  case (Cons x xs)
  show ?case
  proof (cases "x = (k, d)")
    case True
    have "filter P (concat (map f xs)) = []"
    proof -
      have "\<And>item v. item \<in> set xs \<Longrightarrow> v \<in> set (f item) \<Longrightarrow> \<not> P v"
      proof
        fix item v assume i: "item \<in> set xs" "v \<in> set (f item)" "P v"
        then have "fst item = k" using Cons.prems(3) by auto
        moreover from Cons.prems(1) True have "k \<notin> fst ` set xs" by auto
        ultimately show False using i(1) by auto
      qed
      then show ?thesis by (auto simp: filter_empty_conv)
    qed
    with True show ?thesis by simp
  next
    case False
    with Cons.prems(2) have mem: "(k, d) \<in> set xs" by auto
    with Cons.prems(1) have "fst x \<noteq> k" by (auto simp: image_iff)
    then have "filter P (f x) = []"
      using Cons.prems(3) [of x] by (auto simp: filter_empty_conv)
    moreover have "filter P (concat (map f xs)) = filter P (f (k, d))"
      using Cons.IH Cons.prems mem by auto
    ultimately show ?thesis by simp
  qed
qed

lemma quality_violations_of_column:
  assumes "distinct (map fst schema)" and "(nm, d) \<in> set schema"
  shows "filter (is_violation nm check) (fst (run_data_quality_checks L df schema fetched))
       = filter (is_violation nm check)
           (fst (quality_check_column L df (case fetched of None \<Rightarrow> [] | Some cs \<Rightarrow> cs) (nm, d)))"
proof -
  let ?cs = "case fetched of None \<Rightarrow> [] | Some cs \<Rightarrow> cs"
  have "filter (is_violation nm check)
          (concat (map (\<lambda>item. fst (quality_check_column L df ?cs item)) schema))
      = filter (is_violation nm check) (fst (quality_check_column L df ?cs (nm, d)))"
    using assms
  proof (rule filter_concat_key)
    fix item v
    assume "v \<in> set (fst (quality_check_column L df ?cs item))" "is_violation nm check v"
    then show "fst item = nm"
      using quality_check_column_violation [of v L df ?cs item] by (simp add: is_violation_def)
  qed
  then show ?thesis
    by (simp add: run_data_quality_checks_def Let_def comp_def)
qed

lemma has_column_series:
  assumes "df_getitem df l = OneSeries s"
  shows "has_column df l"
proof -
  have "filter (\<lambda>ls. py_eq (fst ls) l) (columns df) \<noteq> []"
    using assms by (auto simp: df_getitem_def split: list.splits)
  then show ?thesis
    by (auto simp: has_column_def list_ex_iff filter_empty_conv)
qed





subsection \<open>Primary-key uniqueness\<close>

lemma py_eq_key_norm: "py_eq a b \<longleftrightarrow> key_norm a = key_norm b"
  by (cases a; cases b) (auto simp: py_eq_def key_norm_def num_val_def)

lemma set_unique: "set (unique seen xs) \<subseteq> set xs"
  by (induction xs arbitrary: seen) auto

lemma length_unique:
  "length (unique seen xs) = card (key_norm ` set xs - key_norm ` set seen)"
proof (induction xs arbitrary: seen)
  case Nil
  then show ?case by simp
next
  case (Cons v vs)
  show ?case
  proof (cases "list_ex (py_eq v) seen")
    case True
    then have "key_norm v \<in> key_norm ` set seen"
      by (auto simp: list_ex_iff py_eq_key_norm)
    then have "key_norm ` set (v # vs) - key_norm ` set seen = key_norm ` set vs - key_norm ` set seen"
      by auto
    with True Cons.IH [of seen] show ?thesis by simp
  next
    case False
    then have nv: "key_norm v \<notin> key_norm ` set seen"
      by (auto simp: list_ex_iff py_eq_key_norm)
    have "key_norm ` set (v # vs) - key_norm ` set seen
        = insert (key_norm v) (key_norm ` set vs - key_norm ` set (v # seen))"
      using nv by auto
    moreover have "key_norm v \<notin> key_norm ` set vs - key_norm ` set (v # seen)" by simp
    moreover have "finite (key_norm ` set vs - key_norm ` set (v # seen))" by simp
    ultimately have "card (key_norm ` set (v # vs) - key_norm ` set seen)
        = Suc (card (key_norm ` set vs - key_norm ` set (v # seen)))"
      by (metis card_insert_disjoint)
    with False Cons.IH [of "v # seen"] show ?thesis by simp
  qed
qed

lemma pk_keys_kept: "pk_keys s = kept_keys s"
  by (cases "dtype s = ''object''")
     (simp_all add: pk_keys_def kept_keys_def dropna_def isnull_def Let_def conj_commute)

lemma duplicated_repeated: "duplicated ks = repeated ks"
proof -
  have "\<And>v. filter (py_eq v) ks = filter (\<lambda>k. key_norm k = key_norm v) ks"
    by (intro filter_cong) (auto simp: py_eq_key_norm)
  then show ?thesis by (simp add: duplicated_def repeated_def occurrences_def)
qed

lemma pk_part:
  assumes "df_getitem df (PStr nm) = OneSeries s"
  shows "filter (is_violation nm ''primary_key_violation'') (fst (quality_check_column L df cs (nm, d)))
       = pk_check L nm d s"
proof -
  have h: "has_column df (PStr nm)"
    using assms by (rule has_column_series)
  have a: "filter (is_violation nm ''primary_key_violation'') (not_null_check df nm d s) = []"
    by (auto simp: filter_empty_conv is_violation_def dest: not_null_check_violation)
  have b: "filter (is_violation nm ''primary_key_violation'') (pk_check L nm d s) = pk_check L nm d s"
    by (simp add: pk_check_def is_violation_def Let_def)
  have c: "filter (is_violation nm ''primary_key_violation'') (fst (check_constraints_check L df nm s cs)) = []"
    by (auto simp: filter_empty_conv is_violation_def dest: check_constraints_check_violation)
  show ?thesis
    using assms h a b c by (simp add: quality_check_column_def Let_def)
qed

text \<open>
  C7 as the spec states it fails: the code drops empty-string keys only in a column
  whose dtype is \<open>object\<close>.  In \<open>str_keys_df\<close> the key column holds its text under the dtype
  \<open>str\<close>: after dropping empty strings one key (\<open>a\<close>) repeats, in 2 records, but the check
  reports 2 duplicated keys in 4 records, the empty string among them.
\<close>

theorem C7_counterexample:
  "card (key_norm ` set (repeated (claimed_keys
       \<lparr> dtype = ''str'', vals = [PStr ''a'', PStr ''a'', PStr [], PStr []] \<rparr>))) = 1
   \<and> length (repeated (claimed_keys
       \<lparr> dtype = ''str'', vals = [PStr ''a'', PStr ''a'', PStr [], PStr []] \<rparr>)) = 2
   \<and> df_getitem str_keys_df (PStr ''id'')
       = OneSeries \<lparr> dtype = ''str'', vals = [PStr ''a'', PStr ''a'', PStr [], PStr []] \<rparr>
   \<and> map (\<lambda>v. (map_of v ''distinct_keys_duplicated'', map_of v ''total_duplicate_records''))
         (filter (is_violation ''id'' ''primary_key_violation'')
            (fst (run_data_quality_checks demo_lib str_keys_df id_schema None)))
       = [(Some (PInt 2), Some (PInt 4))]"
  by code_simp

text \<open>
  C7, amended.  For a primary-key table column found once in the dataset: after dropping
  the rows whose key is missing or, in a column of dtype \<open>object\<close>, an empty string, if
  some key occurs more than once the check emits exactly one \<open>primary_key_violation\<close> for
  the column, of severity \<open>high\<close>, with the number of distinct duplicated key values, the
  number of rows holding them, and 5 of the duplicated values (or as many as there are
  distinct ones, if fewer) as samples; if no key repeats it emits none.
\<close>

theorem C7_primary_key_duplicates:
  assumes "distinct (map fst schema)" and "(nm, d) \<in> set schema" and "primary_key d"
    and "df_getitem df (PStr nm) = OneSeries s"
  shows "(duplicate_rows s \<noteq> [] \<longrightarrow>
           (\<exists>samples details. length samples = min 5 (card (key_norm ` set (duplicate_rows s)))
              \<and> set samples \<subseteq> (\<lambda>v. PStr (py_str L v)) ` set (duplicate_rows s)
              \<and> filter (is_violation nm ''primary_key_violation'')
                     (fst (run_data_quality_checks L df schema fetched))
              = [[(''column'', PStr nm), (''check'', PStr ''primary_key_violation''),
                  (''distinct_keys_duplicated'', PInt (int (card (key_norm ` set (duplicate_rows s))))),
                  (''total_duplicate_records'', PInt (int (length (duplicate_rows s)))),
                  (''sample_duplicate_values'', PList samples),
                  (''severity'', PStr ''high''), (''details'', PStr details)]]))
       \<and> (duplicate_rows s = [] \<longrightarrow>
            filter (is_violation nm ''primary_key_violation'')
                   (fst (run_data_quality_checks L df schema fetched)) = [])"
proof -
  have e: "filter (is_violation nm ''primary_key_violation'')
                   (fst (run_data_quality_checks L df schema fetched))
         = pk_check L nm d s"
    using quality_violations_of_column [OF assms(1,2)] pk_part [OF assms(4)] by simp
  have k: "duplicated (pk_keys s) = duplicate_rows s"
    by (simp add: pk_keys_kept duplicated_repeated duplicate_rows_def)
  have n: "length (unique [] (duplicate_rows s)) = card (key_norm ` set (duplicate_rows s))"
    by (simp add: length_unique)
  have pos: "duplicate_rows s \<noteq> [] \<longleftrightarrow> 0 < card (key_norm ` set (duplicate_rows s))"
    by (simp add: card_gt_0_iff)
  let ?samples = "map (\<lambda>v. PStr (py_str L v)) (take 5 (unique [] (duplicate_rows s)))"
  have s1: "length ?samples = min 5 (card (key_norm ` set (duplicate_rows s)))"
    by (simp add: n min.commute)
  have s2: "set ?samples \<subseteq> (\<lambda>v. PStr (py_str L v)) ` set (duplicate_rows s)"
    using set_unique [of "[]" "duplicate_rows s"] set_take_subset [of 5 "unique [] (duplicate_rows s)"]
    by auto
  show ?thesis
  proof (intro conjI impI)
    assume ne: "duplicate_rows s \<noteq> []"
    with pos have c: "0 < card (key_norm ` set (duplicate_rows s))" by simp
    with n have u: "unique [] (duplicate_rows s) \<noteq> []" by auto
    let ?details = "''Primary key column contains duplicates for ''
                   @ str_of_nat (card (key_norm ` set (duplicate_rows s)))
                   @ '' unique key(s), affecting ''
                   @ str_of_nat (length (duplicate_rows s)) @ '' records total.''"
    have pk: "pk_check L nm d s
       = [[(''column'', PStr nm), (''check'', PStr ''primary_key_violation''),
           (''distinct_keys_duplicated'', PInt (int (card (key_norm ` set (duplicate_rows s))))),
           (''total_duplicate_records'', PInt (int (length (duplicate_rows s)))),
           (''sample_duplicate_values'', PList ?samples),
           (''severity'', PStr ''high''), (''details'', PStr ?details)]]"
      using assms(3) u by (simp add: pk_check_def k n Let_def)
    from s1 s2 trans [OF e pk]
    have all: "length ?samples = min 5 (card (key_norm ` set (duplicate_rows s)))
              \<and> set ?samples \<subseteq> (\<lambda>v. PStr (py_str L v)) ` set (duplicate_rows s)
              \<and> filter (is_violation nm ''primary_key_violation'')
                     (fst (run_data_quality_checks L df schema fetched))
              = [[(''column'', PStr nm), (''check'', PStr ''primary_key_violation''),
                  (''distinct_keys_duplicated'', PInt (int (card (key_norm ` set (duplicate_rows s))))),
                  (''total_duplicate_records'', PInt (int (length (duplicate_rows s)))),
                  (''sample_duplicate_values'', PList ?samples),
                  (''severity'', PStr ''high''), (''details'', PStr ?details)]]"
      by (intro conjI)
    show "\<exists>samples details. length samples = min 5 (card (key_norm ` set (duplicate_rows s)))
              \<and> set samples \<subseteq> (\<lambda>v. PStr (py_str L v)) ` set (duplicate_rows s)
              \<and> filter (is_violation nm ''primary_key_violation'')
                     (fst (run_data_quality_checks L df schema fetched))
              = [[(''column'', PStr nm), (''check'', PStr ''primary_key_violation''),
                  (''distinct_keys_duplicated'', PInt (int (card (key_norm ` set (duplicate_rows s))))),
                  (''total_duplicate_records'', PInt (int (length (duplicate_rows s)))),
                  (''sample_duplicate_values'', PList samples),
                  (''severity'', PStr ''high''), (''details'', PStr details)]]"
      by (rule exI [of _ ?samples], rule exI [of _ ?details]) (rule all)
  next
    assume "duplicate_rows s = []"
    then show "filter (is_violation nm ''primary_key_violation'')
                   (fst (run_data_quality_checks L df schema fetched)) = []"
      unfolding e by (simp add: pk_check_def k Let_def)
  qed
qed

theorem C7_witness:
  "distinct (map fst id_schema)
   \<and> card (key_norm ` set (duplicate_rows
        \<lparr> dtype = ''int64'', vals = [PInt 1, PInt 1, PInt 2, PInt 3, PInt 3, PInt 3] \<rparr>)) = 2
   \<and> length (duplicate_rows
        \<lparr> dtype = ''int64'', vals = [PInt 1, PInt 1, PInt 2, PInt 3, PInt 3, PInt 3] \<rparr>) = 5
   \<and> (\<exists>samples details. length samples \<le> 5
         \<and> filter (is_violation ''id'' ''primary_key_violation'')
                (fst (run_data_quality_checks demo_lib repeated_ids_df id_schema None))
           = [[(''column'', PStr ''id''), (''check'', PStr ''primary_key_violation''),
               (''distinct_keys_duplicated'', PInt 2),
               (''total_duplicate_records'', PInt 5),
               (''sample_duplicate_values'', PList samples),
               (''severity'', PStr ''high''), (''details'', PStr details)]])"
proof -
  let ?d = "\<lparr> col_type = ''INTEGER'', nullable = True, primary_key = True \<rparr>"
  let ?s = "\<lparr> dtype = ''int64'', vals = [PInt 1, PInt 1, PInt 2, PInt 3, PInt 3, PInt 3] \<rparr>"
  have h1: "distinct (map fst id_schema)" by (simp add: id_schema_def)
  have h2: "(''id'', ?d) \<in> set id_schema" by (simp add: id_schema_def)
  have h3: "primary_key ?d" by simp
  have h4: "df_getitem repeated_ids_df (PStr ''id'') = OneSeries ?s"
    by (simp add: df_getitem_def repeated_ids_df_def py_eq_def num_val_def)
  have w1: "card (key_norm ` set (duplicate_rows ?s)) = 2" by code_simp
  have w2: "length (duplicate_rows ?s) = 5" by code_simp
  from w2 have ne: "duplicate_rows ?s \<noteq> []" by auto
  note T = C7_primary_key_duplicates [OF h1 h2 h3 h4, of demo_lib None]
  from conjunct1 [OF T, THEN mp, OF ne] obtain samples details where
    "length samples = min 5 (card (key_norm ` set (duplicate_rows ?s)))"
    "filter (is_violation ''id'' ''primary_key_violation'')
                (fst (run_data_quality_checks demo_lib repeated_ids_df id_schema None))
           = [[(''column'', PStr ''id''), (''check'', PStr ''primary_key_violation''),
               (''distinct_keys_duplicated'', PInt (int (card (key_norm ` set (duplicate_rows ?s))))),
               (''total_duplicate_records'', PInt (int (length (duplicate_rows ?s)))),
               (''sample_duplicate_values'', PList samples),
               (''severity'', PStr ''high''), (''details'', PStr details)]]"
    by (elim exE conjE)
  then have "\<exists>samples details. length samples \<le> 5
         \<and> filter (is_violation ''id'' ''primary_key_violation'')
                (fst (run_data_quality_checks demo_lib repeated_ids_df id_schema None))
           = [[(''column'', PStr ''id''), (''check'', PStr ''primary_key_violation''),
               (''distinct_keys_duplicated'', PInt 2),
               (''total_duplicate_records'', PInt 5),
               (''sample_duplicate_values'', PList samples),
               (''severity'', PStr ''high''), (''details'', PStr details)]]"
    unfolding w1 w2 by (intro exI [of _ samples] exI [of _ details]) simp
  with h1 w1 w2 show ?thesis by (intro conjI)
qed

subsection \<open>Type compatibility\<close>

lemma sql_to_pandas_map_eq:
  "sql_to_pandas_map =
     [(''INTEGER'', ''int64''), (''INT'', ''int64''), (''REAL'', ''float64''),
      (''FLOAT'', ''float64''), (''NUMERIC'', ''float64''), (''DOUBLE'', ''float64''),
      (''TEXT'', ''object''), (''VARCHAR'', ''object''), (''CHAR'', ''object''),
      (''DATE'', ''datetime64[ns]''), (''DATETIME'', ''datetime64[ns]''),
      (''TIMESTAMP'', ''datetime64[ns]''), (''STRING'', ''object''),
      (''BOOLEAN'', ''bool''), (''BOOL'', ''bool'')]"
  by code_simp

lemma temporal_text_no_violation:
  assumes "db_type_base d \<in> set [''DATE'', ''DATETIME'', ''TIMESTAMP'']"
    and "df_getitem df (PStr nm) = OneSeries s" and "dtype s = ''object''"
  shows "fst (type_check_column L df (nm, d)) = []"
  using assms
  by (auto simp: type_check_column_def Let_def is_mismatch_def split: option.splits)

lemma samples_bounded:
  assumes "v \<in> set (fst (type_check_column L df item))"
  shows "\<exists>xs. map_of v ''sample_invalid_values'' = Some (PList xs) \<and> length xs \<le> 5"
  using assms
  by (auto simp: type_check_column_def Let_def split: if_splits getitem.splits option.splits)

lemma type_violations_of_column:
  assumes "distinct (map fst schema)" and "(nm, d) \<in> set schema"
  shows "filter (\<lambda>v. map_of v ''column'' = Some (PStr nm)) (fst (validate_data_types L df schema))
       = filter (\<lambda>v. map_of v ''column'' = Some (PStr nm)) (fst (type_check_column L df (nm, d)))"
proof -
  have "filter (\<lambda>v. map_of v ''column'' = Some (PStr nm))
          (concat (map (\<lambda>item. fst (type_check_column L df item)) schema))
      = filter (\<lambda>v. map_of v ''column'' = Some (PStr nm)) (fst (type_check_column L df (nm, d)))"
    using assms
  proof (rule filter_concat_key)
    fix item v
    assume "v \<in> set (fst (type_check_column L df item))" "map_of v ''column'' = Some (PStr nm)"
    then show "fst item = nm"
      using type_check_column_violation [of v L df item] by simp
  qed
  then show ?thesis
    by (simp add: validate_data_types_def Let_def comp_def)
qed

lemma temporal_other_flagged:
  assumes "db_type_base d \<in> set [''DATE'', ''DATETIME'', ''TIMESTAMP'']"
    and "df_getitem df (PStr nm) = OneSeries s"
    and "dtype s \<noteq> ''object''" and "dtype s \<noteq> ''datetime64[ns]''"
  shows "fst (type_check_column L df (nm, d))
       = [[(''column'', PStr nm), (''expected_db_type'', PStr (db_type_base d)),
           (''found_file_type'', PStr (dtype s)), (''sample_invalid_values'', PList [])]]"
proof -
  have h: "has_column df (PStr nm)"
    using assms(2) by (rule has_column_series)
  from assms(1) have m: "map_of sql_to_pandas_map (db_type_base d) = Some ''datetime64[ns]''"
    by (auto simp: sql_to_pandas_map_eq)
  show ?thesis
    using assms h m
    by (simp add: type_check_column_def Let_def is_mismatch_def collect_samples_def)
qed

lemma int_text_example:
  assumes "to_numeric_str L ''1'' \<noteq> None" and "float_of_str L ''1'' = Some (Finite 1)"
    and "to_numeric_str L ''2'' \<noteq> None" and "float_of_str L ''2'' = Some (Finite 2)"
    and "to_numeric_str L ''x'' = None"
  shows "fst (validate_data_types L int_text_df int_schema)
            = [[(''column'', PStr ''qty''), (''expected_db_type'', PStr ''INTEGER''),
                (''found_file_type'', PStr ''object''),
                (''sample_invalid_values'', PList [PStr ''x''])]]"
proof -
  have g: "df_getitem int_text_df (PStr ''qty'')
      = OneSeries \<lparr> dtype = ''object'', vals = [PStr ''1'', PStr ''2'', PStr ''x''] \<rparr>"
    by (simp add: df_getitem_def int_text_df_def py_eq_def num_val_def)
  have h: "has_column int_text_df (PStr ''qty'')"
    by (simp add: has_column_def int_text_df_def py_eq_def num_val_def)
  have b: "db_type_base \<lparr> col_type = ''INTEGER'', nullable = True, primary_key = False \<rparr> = ''INTEGER''"
    by code_simp
  have m: "map_of sql_to_pandas_map ''INTEGER'' = Some ''int64''"
    by (simp add: sql_to_pandas_map_eq)
  have u: "unique [] (dropna [PStr ''1'', PStr ''2'', PStr ''x''])
         = [PStr ''1'', PStr ''2'', PStr ''x'']"
    by (simp add: dropna_def isnull_def py_eq_def num_val_def)
  have f1: "fails_integer L (PStr ''1'') = Skip"
    using assms(1,2) by (auto simp: fails_integer_def to_numeric_raise_def py_float_def py_int_def)
  have f2: "fails_integer L (PStr ''2'') = Skip"
    using assms(3,4) by (auto simp: fails_integer_def to_numeric_raise_def py_float_def py_int_def)
  have fx: "fails_integer L (PStr ''x'') = Append"
    using assms(5) by (simp add: fails_integer_def to_numeric_raise_def handled_def)
  show ?thesis
    by (simp add: validate_data_types_def int_schema_def type_check_column_def g h b m u
        f1 f2 fx py_str_def is_mismatch_def collect_samples_def Let_def)
qed

text \<open>The integer sampling loop is left at a value whose float is an infinity: the
  samples gathered before it stay, later values are not looked at.\<close>

lemma sample_loop_overflow:
  assumes "to_numeric_str L ''inf'' \<noteq> None" and "float_of_str L ''inf'' = Some Infinity"
  shows "sample_loop L (fails_integer L) [PStr ''inf'', PStr ''x''] []
       = ([], Some (OverflowError ''cannot convert float infinity to integer''))"
  using assms
  by (auto simp: fails_integer_def to_numeric_raise_def py_float_def py_int_def handled_def)

text \<open>
  C8 as the spec states it fails: the exemption of temporal columns and the
  integer-coercion samples both test the dtype name \<open>object\<close>.  Text held under the dtype
  \<open>str\<close> is flagged for a \<open>TIMESTAMP\<close> column, and \<open>["1","2","x"]\<close> under that dtype is
  flagged for an \<open>INTEGER\<close> column without any sample.
\<close>

theorem C8_counterexample:
  "fst (validate_data_types demo_lib str_dates_df dates_schema)
     = [[(''column'', PStr ''shipped''), (''expected_db_type'', PStr ''TIMESTAMP''),
         (''found_file_type'', PStr ''str''), (''sample_invalid_values'', PList [])]]
   \<and> fst (validate_data_types demo_lib str_int_text_df int_schema)
     = [[(''column'', PStr ''qty''), (''expected_db_type'', PStr ''INTEGER''),
         (''found_file_type'', PStr ''str''), (''sample_invalid_values'', PList [])]]"
  by code_simp

text \<open>
  C8, amended.  A table column whose base type is \<open>DATE\<close>, \<open>DATETIME\<close> or \<open>TIMESTAMP\<close> is
  never flagged when the dataset column is of dtype \<open>object\<close>; under any other dtype than
  \<open>object\<close> and \<open>datetime64[ns]\<close> it is flagged, without samples.  The column
  \<open>["1","2","x"]\<close> of dtype \<open>object\<close> declared \<open>INTEGER\<close> is flagged with one violation
  whose samples are exactly \<open>["x"]\<close>, given that the library reads \<open>1\<close> and \<open>2\<close> as these
  numbers and rejects \<open>x\<close>.  Every violation carries at most 5 samples.
\<close>

theorem C8_temporal_text_exempt_and_integer_text_flagged:
  "(distinct (map fst schema) \<and> (nm, d) \<in> set schema
      \<and> db_type_base d \<in> set [''DATE'', ''DATETIME'', ''TIMESTAMP'']
      \<and> df_getitem df (PStr nm) = OneSeries s \<and> dtype s = ''object''
     \<longrightarrow> (\<forall>v \<in> set (fst (validate_data_types L df schema)). map_of v ''column'' \<noteq> Some (PStr nm)))
   \<and> (distinct (map fst schema) \<and> (nm, d) \<in> set schema
      \<and> db_type_base d \<in> set [''DATE'', ''DATETIME'', ''TIMESTAMP'']
      \<and> df_getitem df (PStr nm) = OneSeries s
      \<and> dtype s \<noteq> ''object'' \<and> dtype s \<noteq> ''datetime64[ns]''
     \<longrightarrow> filter (\<lambda>v. map_of v ''column'' = Some (PStr nm)) (fst (validate_data_types L df schema))
          = [[(''column'', PStr nm), (''expected_db_type'', PStr (db_type_base d)),
              (''found_file_type'', PStr (dtype s)), (''sample_invalid_values'', PList [])]])
   \<and> (to_numeric_str L ''1'' \<noteq> None \<and> float_of_str L ''1'' = Some (Finite 1)
      \<and> to_numeric_str L ''2'' \<noteq> None \<and> float_of_str L ''2'' = Some (Finite 2)
      \<and> to_numeric_str L ''x'' = None
     \<longrightarrow> fst (validate_data_types L int_text_df int_schema)
            = [[(''column'', PStr ''qty''), (''expected_db_type'', PStr ''INTEGER''),
                (''found_file_type'', PStr ''object''),
                (''sample_invalid_values'', PList [PStr ''x''])]])
   \<and> (\<forall>v \<in> set (fst (validate_data_types L df schema)).
         \<exists>xs. map_of v ''sample_invalid_values'' = Some (PList xs) \<and> length xs \<le> 5)"
proof (intro conjI impI ballI)
  fix v
  assume a: "distinct (map fst schema) \<and> (nm, d) \<in> set schema
      \<and> db_type_base d \<in> set [''DATE'', ''DATETIME'', ''TIMESTAMP'']
      \<and> df_getitem df (PStr nm) = OneSeries s \<and> dtype s = ''object''"
    and v: "v \<in> set (fst (validate_data_types L df schema))"
  show "map_of v ''column'' \<noteq> Some (PStr nm)"
  proof
    assume c: "map_of v ''column'' = Some (PStr nm)"
    from v obtain item where item: "item \<in> set schema" "v \<in> set (fst (type_check_column L df item))"
      using validate_data_types_violation by blast
    from type_check_column_violation [OF item(2)] c have "fst item = nm" by simp
    with item(1) a have "item = (nm, d)"
      by (metis eq_key_imp_eq_value prod.collapse)
    with item(2) temporal_text_no_violation [of d df nm s L] a show False by simp
  qed
next
  assume a: "distinct (map fst schema) \<and> (nm, d) \<in> set schema
      \<and> db_type_base d \<in> set [''DATE'', ''DATETIME'', ''TIMESTAMP'']
      \<and> df_getitem df (PStr nm) = OneSeries s
      \<and> dtype s \<noteq> ''object'' \<and> dtype s \<noteq> ''datetime64[ns]''"
  then have t: "fst (type_check_column L df (nm, d))
       = [[(''column'', PStr nm), (''expected_db_type'', PStr (db_type_base d)),
           (''found_file_type'', PStr (dtype s)), (''sample_invalid_values'', PList [])]]"
    by (intro temporal_other_flagged) simp_all
  from a have "filter (\<lambda>v. map_of v ''column'' = Some (PStr nm)) (fst (validate_data_types L df schema))
       = filter (\<lambda>v. map_of v ''column'' = Some (PStr nm)) (fst (type_check_column L df (nm, d)))"
    by (intro type_violations_of_column) simp_all
  then show "filter (\<lambda>v. map_of v ''column'' = Some (PStr nm)) (fst (validate_data_types L df schema))
          = [[(''column'', PStr nm), (''expected_db_type'', PStr (db_type_base d)),
              (''found_file_type'', PStr (dtype s)), (''sample_invalid_values'', PList [])]]"
    unfolding t by simp
next
  assume "to_numeric_str L ''1'' \<noteq> None \<and> float_of_str L ''1'' = Some (Finite 1)
      \<and> to_numeric_str L ''2'' \<noteq> None \<and> float_of_str L ''2'' = Some (Finite 2)
      \<and> to_numeric_str L ''x'' = None"
  then show "fst (validate_data_types L int_text_df int_schema)
            = [[(''column'', PStr ''qty''), (''expected_db_type'', PStr ''INTEGER''),
                (''found_file_type'', PStr ''object''),
                (''sample_invalid_values'', PList [PStr ''x''])]]"
    by (intro int_text_example) simp_all
next
  fix v assume "v \<in> set (fst (validate_data_types L df schema))"
  then obtain item where "v \<in> set (fst (type_check_column L df item))"
    using validate_data_types_violation by blast
  then show "\<exists>xs. map_of v ''sample_invalid_values'' = Some (PList xs) \<and> length xs \<le> 5"
    by (rule samples_bounded)
qed

theorem C8_witness:
  "distinct (map fst dates_schema)
   \<and> db_type_base \<lparr> col_type = ''timestamp(6)'', nullable = True, primary_key = False \<rparr>
       = ''TIMESTAMP''
   \<and> list_all (\<lambda>v. map_of v ''column'' \<noteq> Some (PStr ''shipped''))
        (fst (validate_data_types demo_lib dates_df dates_schema))
   \<and> filter (\<lambda>v. map_of v ''column'' = Some (PStr ''shipped''))
        (fst (validate_data_types demo_lib str_dates_df dates_schema))
       = [[(''column'', PStr ''shipped''), (''expected_db_type'', PStr ''TIMESTAMP''),
           (''found_file_type'', PStr ''str''), (''sample_invalid_values'', PList [])]]
   \<and> to_numeric_str demo_lib ''x'' = None
   \<and> fst (validate_data_types demo_lib int_text_df int_schema)
       = [[(''column'', PStr ''qty''), (''expected_db_type'', PStr ''INTEGER''),
           (''found_file_type'', PStr ''object''),
           (''sample_invalid_values'', PList [PStr ''x''])]]"
proof -
  let ?d = "\<lparr> col_type = ''timestamp(6)'', nullable = True, primary_key = False \<rparr>"
  let ?s = "\<lparr> dtype = ''object'', vals = [PStr ''2024-01-31'', PStr ''soon''] \<rparr>"
  let ?s' = "\<lparr> dtype = ''str'', vals = [PStr ''2024-01-31'', PStr ''soon''] \<rparr>"
  note T = C8_temporal_text_exempt_and_integer_text_flagged
             [where schema = dates_schema and nm = "''shipped''" and d = ?d and df = dates_df
                and s = ?s and L = demo_lib]
  note T' = C8_temporal_text_exempt_and_integer_text_flagged
             [where schema = dates_schema and nm = "''shipped''" and d = ?d and df = str_dates_df
                and s = ?s' and L = demo_lib]
  have h1: "distinct (map fst dates_schema)" by (simp add: dates_schema_def)
  have h2: "(''shipped'', ?d) \<in> set dates_schema" by (simp add: dates_schema_def)
  have h3: "db_type_base ?d = ''TIMESTAMP''" by code_simp
  have h4: "df_getitem dates_df (PStr ''shipped'') = OneSeries ?s"
    by (simp add: df_getitem_def dates_df_def py_eq_def num_val_def)
  have h4': "df_getitem str_dates_df (PStr ''shipped'') = OneSeries ?s'"
    by (simp add: df_getitem_def str_dates_df_def py_eq_def num_val_def)
  have h6: "to_numeric_str demo_lib ''1'' \<noteq> None \<and> float_of_str demo_lib ''1'' = Some (Finite 1)
      \<and> to_numeric_str demo_lib ''2'' \<noteq> None \<and> float_of_str demo_lib ''2'' = Some (Finite 2)
      \<and> to_numeric_str demo_lib ''x'' = None"
    by (simp add: demo_lib_def)
  from T h1 h2 h3 h4
  have c1: "\<forall>v \<in> set (fst (validate_data_types demo_lib dates_df dates_schema)).
              map_of v ''column'' \<noteq> Some (PStr ''shipped'')"
    by simp
  from T' h1 h2 h3 h4'
  have c2: "filter (\<lambda>v. map_of v ''column'' = Some (PStr ''shipped''))
        (fst (validate_data_types demo_lib str_dates_df dates_schema))
       = [[(''column'', PStr ''shipped''), (''expected_db_type'', PStr ''TIMESTAMP''),
           (''found_file_type'', PStr ''str''), (''sample_invalid_values'', PList [])]]"
    by simp
  from T h6
  have c3: "fst (validate_data_types demo_lib int_text_df int_schema)
       = [[(''column'', PStr ''qty''), (''expected_db_type'', PStr ''INTEGER''),
           (''found_file_type'', PStr ''object''),
           (''sample_invalid_values'', PList [PStr ''x''])]]"
    by blast
  from h6 have h7: "to_numeric_str demo_lib ''x'' = None" by simp
  from h1 h3 c1 c2 h7 c3 show ?thesis by (simp add: list_all_iff)
qed

end
